theory Spec2Isabelle
  imports Complex_Main "HOL-Library.Char_ord" "HOL-Library.List_Lexorder"
begin

section \<open>Python strings\<close>

text \<open>
  A Python \<open>str\<close> is modelled as a \<open>string\<close> whose characters are code points below 256.
  \<open>str.strip()\<close>, \<open>str.rstrip()\<close> and the regular-expression class \<open>\s\<close> use the same
  whitespace test; below 256 it holds of the code points listed in \<open>is_space\<close>.
\<close>

definition is_space :: "char \<Rightarrow> bool" where
  "is_space c = (c \<in> set [CHR 0x09, CHR 0x0A, CHR 0x0B, CHR 0x0C, CHR 0x0D,
       CHR 0x1C, CHR 0x1D, CHR 0x1E, CHR 0x1F, CHR 0x20, CHR 0x85, CHR 0xA0])"

definition lstrip :: "string \<Rightarrow> string" where
  "lstrip s = dropWhile is_space s"

definition rstrip :: "string \<Rightarrow> string" where
  "rstrip s = rev (dropWhile is_space (rev s))"

definition strip :: "string \<Rightarrow> string" where
  "strip s = lstrip (rstrip s)"

definition startswith :: "string \<Rightarrow> string \<Rightarrow> bool" where
  "startswith p s = (take (length p) s = p)"

text \<open>\<open>str_in sub s\<close> is Python's \<open>sub in s\<close> on strings: \<open>sub\<close> occurs in \<open>s\<close>.\<close>

fun str_in :: "string \<Rightarrow> string \<Rightarrow> bool" where
  "str_in sub [] = (sub = [])"
| "str_in sub (c # cs) = (startswith sub (c # cs) \<or> str_in sub cs)"

section \<open>Test-case normalisation\<close>

text \<open>
  The three runners clean a test case the same way
  (\<open>Task3/test_runner.py\<close>, \<open>Task2/test_runner_notebook.py\<close>,
  \<open>pytest_cov_enhanced_analyzer.py\<close>):
  \<^verbatim>\<open>
  test_code = test_case.strip()
  if not test_code.startswith('assert'):
      test_code = f"assert {test_code}"
  \<close>
\<close>

definition normalize_test :: "string \<Rightarrow> string" where
  "normalize_test test_case =
     (let test_code = strip test_case
      in if \<not> startswith ''assert'' test_code then ''assert '' @ test_code else test_code)"

section \<open>The pattern of the equality form\<close>

text \<open>
  \<open>Task3/test_runner.py\<close> reads the argument text and the expected text of a test with
  \<^verbatim>\<open>re.search(r"candidate\((.*?)\)\s*==\s*(.+)", test_code)\<close>.
  The functions below are the backtracking search of that one pattern: \<open>.\<close> is any
  character but the newline, \<open>.*?\<close> takes as few characters as possible, \<open>\s*\<close> and
  \<open>.+\<close> as many as possible, and the leftmost start wins.
\<close>

text \<open>\<open>\s*(.+)\<close> at the end of the pattern: \<open>j\<close> is the number of whitespace characters
  given to \<open>\s*\<close>, tried from the longest run downwards; the result is group 2.\<close>

fun match_expected_from :: "nat \<Rightarrow> string \<Rightarrow> string option" where
  "match_expected_from j r =
     (if j < length r \<and> r ! j \<noteq> CHR 0x0A
      then Some (takeWhile (\<lambda>c. c \<noteq> CHR 0x0A) (drop j r))
      else (case j of 0 \<Rightarrow> None | Suc j' \<Rightarrow> match_expected_from j' r))"

definition match_expected :: "string \<Rightarrow> string option" where
  "match_expected r = match_expected_from (length (takeWhile is_space r)) r"

text \<open>\<open>\s*==\s*(.+)\<close>, what follows the closing parenthesis. No whitespace character is
  \<open>=\<close>, so \<open>\s*\<close> before \<open>==\<close> can only take the whole run of whitespace.\<close>

definition match_after_paren :: "string \<Rightarrow> string option" where
  "match_after_paren s =
     (let r = dropWhile is_space s
      in if startswith ''=='' r then match_expected (drop 2 r) else None)"

text \<open>\<open>(.*?)\)\<close> and the rest: \<open>acc\<close> holds group 1 so far, reversed. The group ends at
  the first closing parenthesis after which the rest of the pattern matches.\<close>

fun match_args :: "string \<Rightarrow> string \<Rightarrow> (string \<times> string) option" where
  "match_args acc [] = None"
| "match_args acc (c # cs) =
     (case (if c = CHR '')'' then match_after_paren cs else None) of
        Some g2 \<Rightarrow> Some (rev acc, g2)
      | None \<Rightarrow> if c = CHR 0x0A then None else match_args (c # acc) cs)"

definition match_at :: "string \<Rightarrow> (string \<times> string) option" where
  "match_at s = (if startswith ''candidate('' s then match_args [] (drop 10 s) else None)"

text \<open>\<open>re_search s\<close> is \<open>Some (group 1, group 2)\<close> of the leftmost match, or \<open>None\<close>.\<close>

fun re_search :: "string \<Rightarrow> (string \<times> string) option" where
  "re_search [] = match_at []"
| "re_search (c # cs) =
     (case match_at (c # cs) of Some g \<Rightarrow> Some g | None \<Rightarrow> re_search cs)"

section \<open>Python objects, exceptions and modules\<close>

text \<open>
  A Python object, as far as the runners look at it: its identity, whether \<open>callable(obj)\<close>
  holds, its truth value (\<open>not obj\<close>), its \<open>__name__\<close> when it has one, and the name of its type.
\<close>

record pyobj =
  ident :: nat
  callable :: bool
  truthy :: bool
  dunder_name :: "string option"
  type_name :: string

definition py_None :: pyobj where
  "py_None = \<lparr>ident = 0, callable = False, truthy = False, dunder_name = None,
               type_name = ''NoneType''\<rparr>"

text \<open>
  An exception instance of a subclass of \<open>Exception\<close>: either an \<open>AssertionError\<close> (the class
  that \<open>except AssertionError\<close> catches) with its message, or any other one with
  \<open>type(e).__name__\<close> and \<open>str(e)\<close>. Exits that are not \<open>Exception\<close>s
  (\<open>SystemExit\<close>, \<open>KeyboardInterrupt\<close>) and code that never returns are outside the model.
\<close>

datatype exn = AssertionError string | Error string string

fun exn_str :: "exn \<Rightarrow> string" where
  "exn_str (AssertionError msg) = msg"
| "exn_str (Error kind msg) = msg"

text \<open>
  A loaded module is the list of its attributes, in the order the file binds them; a name
  bound twice has the value of its last binding. \<open>dir(module)\<close> is the sorted list of the
  attribute names. The attributes every module has (\<open>__name__\<close>, \<open>__builtins__\<close>, ...)
  start with an underscore, so the scans below skip them.
\<close>

type_synonym module = "(string \<times> pyobj) list"

definition getattr :: "module \<Rightarrow> string \<Rightarrow> pyobj option" where
  "getattr m name = map_of (rev m) name"

definition dir_module :: "module \<Rightarrow> string list" where
  "dir_module m = sort (remdups (map fst m))"

text \<open>
  The scan both runners make:
  \<^verbatim>\<open>
  for name in dir(module):
      obj = getattr(module, name)
      if not name.startswith('_') and callable(obj):
          candidate = obj
          break
  \<close>
  Every name of \<open>dir(module)\<close> is an attribute, so the \<open>None\<close> case is never taken.
\<close>

fun first_public_callable :: "module \<Rightarrow> string list \<Rightarrow> pyobj option" where
  "first_public_callable m [] = None"
| "first_public_callable m (name # names) =
     (case getattr m name of
        Some obj \<Rightarrow>
          if \<not> startswith ''_'' name \<and> callable obj then Some obj
          else first_public_callable m names
      | None \<Rightarrow> first_public_callable m names)"

section \<open>Python floats\<close>

text \<open>
  A Python \<open>float\<close> is an IEEE 754 double. \<open>round_double x\<close> is the double nearest to the
  real number \<open>x\<close>, the one with the even significand when two are equally near: the
  result of a float operation whose exact result is \<open>x\<close>. The definition covers zero and
  the normal range, where the doubles around \<open>x\<close> are the multiples of
  \<open>2 ^ (\<lfloor>log\<^sub>2 \<bar>x\<bar>\<rfloor> - 52)\<close>; the quotient of two list lengths and its hundredfold are
  there.
\<close>

definition round_half_even :: "real \<Rightarrow> int" where
  "round_half_even x =
     (let n = \<lfloor>x\<rfloor>; d = x - of_int n
      in if d < 1 / 2 then n else if 1 / 2 < d then n + 1 else if even n then n else n + 1)"

definition round_double :: "real \<Rightarrow> real" where
  "round_double x =
     (if x = 0 then 0
      else (let u = 2 powr (of_int \<lfloor>log 2 \<bar>x\<bar>\<rfloor> - 52)
            in sgn x * of_int (round_half_even (\<bar>x\<bar> / u)) * u))"

section \<open>Task3/test\_runner.py\<close>

text \<open>
  The interpreter is a parameter of the model:
  \<^item> \<open>load code_file\<close> is the outcome of the three \<open>importlib\<close> calls, the module or the
    exception they raise;
  \<^item> \<open>ev candidate test_code\<close> is the outcome of
    \<^verbatim>\<open>exec(test_code, {'candidate': candidate})\<close>, \<open>None\<close> when it raises nothing. The
    test code runs in a namespace of its own, which holds the candidate and no name of
    the runner;
  \<^item> \<open>rd candidate input_val fr\<close> is the outcome of
    \<^verbatim>\<open>repr(candidate(eval(input_val)))\<close>. \<open>eval\<close> is called without a namespace, so the
    argument text runs in the frame of \<open>run_tests_and_report\<close> itself: it reads the
    local names of the runner and can change the lists that \<open>test_cases\<close>, \<open>passed\<close>
    and \<open>failed\<close> are bound to. \<open>rd\<close> therefore takes these three lists and returns
    them as the call leaves them, next to the text of the result or the exception.

  The candidate, and the modules and built-in names that any code can reach, are taken
  to stay as they are throughout a run.
  The \<open>try\<close> block that finds the candidate also prints \<open>candidate.__name__\<close>, so an object
  without that attribute ends in the \<open>except\<close> branch as well.
\<close>

definition get_candidate :: "(string \<Rightarrow> exn + module) \<Rightarrow> string \<Rightarrow> exn + pyobj" where
  "get_candidate load code_file =
     (case load code_file of
        Inl e \<Rightarrow> Inl e
      | Inr m \<Rightarrow>
          (case (case getattr m ''candidate'' of
                   Some c \<Rightarrow> Some c
                 | None \<Rightarrow> first_public_callable m (dir_module m)) of
             None \<Rightarrow> Inl (Error ''ValueError'' ''No function found in module'')
           | Some c \<Rightarrow>
               (case dunder_name c of
                  Some n \<Rightarrow> Inr c
                | None \<Rightarrow> Inl (Error ''AttributeError''
                    (CHR 0x27 # type_name c @ CHR 0x27 #
                       '' object has no attribute '__name__'' @ [CHR 0x27])))))"

text \<open>The three lists of the runner's frame. The runner itself appends the index \<open>i\<close> of
  a test to \<open>passed\<close>, or the index with a message to \<open>failed\<close>; the lists are typed
  by what it appends, so an argument text can leave them with any entries of these
  kinds. Of the other local names, the runner reads again only \<open>candidate\<close> and names
  bound to strings and numbers, which cannot be changed.\<close>

record frame =
  local_test_cases :: "string list"
  local_passed :: "nat list"
  local_failed :: "(nat \<times> string) list"

type_synonym rederive = "pyobj \<Rightarrow> string \<Rightarrow> frame \<Rightarrow> (exn + string) \<times> frame"

text \<open>The \<open>except AssertionError\<close> branch: the pattern is searched in the test code, the
  candidate is called again on the argument text, and then one entry is appended to the
  list \<open>failed\<close> as the call has left it.\<close>

definition record_failure :: "rederive \<Rightarrow> pyobj \<Rightarrow> nat \<Rightarrow> string \<Rightarrow> frame \<Rightarrow> frame" where
  "record_failure rd candidate i test_code fr =
     (case re_search test_code of
        Some (input_val, g2) \<Rightarrow>
          (let expected = strip g2
           in case rd candidate input_val fr of
                (Inr actual, fr') \<Rightarrow>
                  fr'\<lparr>local_failed := local_failed fr'
                        @ [(i, ''Expected: '' @ expected @ '', Got: '' @ actual)]\<rparr>
              | (Inl ex, fr') \<Rightarrow>
                  fr'\<lparr>local_failed := local_failed fr'
                        @ [(i, ''Assertion failed: '' @ exn_str ex)]\<rparr>)
      | None \<Rightarrow> fr\<lparr>local_failed := local_failed fr @ [(i, ''Assertion failed'')]\<rparr>)"

text \<open>The body of the loop, for the test case at index \<open>i\<close>.\<close>

definition run_step ::
  "(pyobj \<Rightarrow> string \<Rightarrow> exn option) \<Rightarrow> rederive \<Rightarrow> pyobj \<Rightarrow> nat \<Rightarrow> string \<Rightarrow> frame \<Rightarrow> frame" where
  "run_step ev rd candidate i test_case fr =
     (let test_code = normalize_test test_case
      in case ev candidate test_code of
           None \<Rightarrow> fr\<lparr>local_passed := local_passed fr @ [i]\<rparr>
         | Some (AssertionError msg) \<Rightarrow> record_failure rd candidate i test_code fr
         | Some (Error kind msg) \<Rightarrow>
             fr\<lparr>local_failed := local_failed fr @ [(i, ''Error: '' @ kind @ '': '' @ msg)]\<rparr>)"

text \<open>
  \<open>for i, test_case in enumerate(test_cases)\<close>: the iterator of a list reads the element
  at the next index as long as that index is below the length the list has by then, so
  the loop follows a list that a step has made longer or shorter. A run whose steps keep
  making the list longer never leaves the loop; its value is \<open>None\<close>.
\<close>

partial_function (option) run_loop ::
  "(nat \<Rightarrow> string \<Rightarrow> frame \<Rightarrow> frame) \<Rightarrow> nat \<Rightarrow> frame \<Rightarrow> frame option" where
  "run_loop step i fr =
     (if i < length (local_test_cases fr)
      then run_loop step (Suc i) (step i (local_test_cases fr ! i) fr)
      else Some fr)"

text \<open>The returned dictionary, without its two listings \<open>passed_tests\<close> and
  \<open>failed_tests\<close>. An exception that leaves the function is \<open>Inl\<close>.\<close>

record report =
  passed :: "nat list"
  failed :: "(nat \<times> string) list"
  total :: nat
  pass_rate :: real

text \<open>Python's \<open>/\<close> on two lengths raises \<open>ZeroDivisionError\<close> on a zero divisor, and is
  the double nearest to the quotient otherwise.\<close>

definition truediv :: "nat \<Rightarrow> nat \<Rightarrow> exn + real" where
  "truediv a b =
     (if b = 0 then Inl (Error ''ZeroDivisionError'' ''division by zero'')
      else Inr (round_double (real a / real b)))"

text \<open>\<^verbatim>\<open>pass_rate = (len(passed) / len(test_cases)) * 100 if test_cases else 0\<close>\<close>

definition rate :: "nat list \<Rightarrow> string list \<Rightarrow> exn + real" where
  "rate ps tests =
     (if tests \<noteq> []
      then (case truediv (length ps) (length tests) of
              Inl e \<Rightarrow> Inl e
            | Inr q \<Rightarrow> Inr (round_double (q * 100)))
      else Inr 0)"

text \<open>
  After the loop: the pass rate, then the printed list of failed tests and the two
  listings of the dictionary, which read \<open>test_cases[idx]\<close> for every index in \<open>failed\<close>
  and in \<open>passed\<close> and raise \<open>IndexError\<close> on an index that the list does not have.
\<close>

definition report_of :: "frame \<Rightarrow> exn + report" where
  "report_of fr =
     (case rate (local_passed fr) (local_test_cases fr) of
        Inl e \<Rightarrow> Inl e
      | Inr r \<Rightarrow>
          if list_ex (\<lambda>idx. \<not> idx < length (local_test_cases fr)) (map fst (local_failed fr))
             \<or> list_ex (\<lambda>idx. \<not> idx < length (local_test_cases fr)) (local_passed fr)
          then Inl (Error ''IndexError'' ''list index out of range'')
          else Inr \<lparr>passed = local_passed fr, failed = local_failed fr,
                    total = length (local_test_cases fr), pass_rate = r\<rparr>)"

text \<open>\<open>None\<close> is a run that never returns.\<close>

definition run_tests_and_report ::
  "(string \<Rightarrow> exn + module) \<Rightarrow> (pyobj \<Rightarrow> string \<Rightarrow> exn option) \<Rightarrow> rederive \<Rightarrow>
   string \<Rightarrow> string list \<Rightarrow> (exn + report) option" where
  "run_tests_and_report load ev rd code_file tests =
     (case get_candidate load code_file of
        Inl e \<Rightarrow>
          Some (Inr \<lparr>passed = [], failed = map (\<lambda>i. (i, exn_str e)) [0..<length tests],
                     total = length tests, pass_rate = 0\<rparr>)
      | Inr candidate \<Rightarrow>
          (case run_loop (run_step ev rd candidate) 0
                  \<lparr>local_test_cases = tests, local_passed = [], local_failed = []\<rparr> of
             None \<Rightarrow> None
           | Some fr \<Rightarrow> Some (report_of fr)))"

section \<open>Task2/test\_runner\_notebook.py\<close>

text \<open>
  The notebook runner loads the module outside any \<open>try\<close>, so an exception of the load
  leaves \<open>run_tests\<close> (\<open>Inl\<close>). Its candidate is \<open>getattr(module, 'candidate', None)\<close>, and
  when that is false the scan replaces it if it finds a public callable. Its one
  \<open>except Exception\<close> records \<open>str(e)\<close>. It calls \<open>exec\<close> with a namespace and never
  \<open>eval\<close>, so no test reaches its lists: an iteration appends \<open>i\<close> to \<open>passed\<close> or
  \<open>(i, msg)\<close> to \<open>failed\<close>, and nothing else changes them.
\<close>

definition notebook_candidate :: "module \<Rightarrow> pyobj" where
  "notebook_candidate m =
     (let candidate = (case getattr m ''candidate'' of Some c \<Rightarrow> c | None \<Rightarrow> py_None)
      in if \<not> truthy candidate
         then (case first_public_callable m (dir_module m) of
                 Some c \<Rightarrow> c | None \<Rightarrow> candidate)
         else candidate)"

datatype outcome = Passed | Failed string

definition notebook_test :: "(pyobj \<Rightarrow> string \<Rightarrow> exn option) \<Rightarrow> pyobj \<Rightarrow> string \<Rightarrow> outcome" where
  "notebook_test ev candidate test_case =
     (let test_code = normalize_test test_case
      in case ev candidate test_code of
           None \<Rightarrow> Passed
         | Some e \<Rightarrow> Failed (exn_str e))"

fun notebook_loop ::
  "(string \<Rightarrow> outcome) \<Rightarrow> nat \<Rightarrow> string list \<Rightarrow> nat list \<times> (nat \<times> string) list \<Rightarrow>
   nat list \<times> (nat \<times> string) list" where
  "notebook_loop f i [] acc = acc"
| "notebook_loop f i (test_case # rest) (ps, fs) =
     (case f test_case of
        Passed \<Rightarrow> notebook_loop f (Suc i) rest (ps @ [i], fs)
      | Failed msg \<Rightarrow> notebook_loop f (Suc i) rest (ps, fs @ [(i, msg)]))"

record notebook_report = report +
  passed_count :: nat
  failed_count :: nat

definition run_tests ::
  "(string \<Rightarrow> exn + module) \<Rightarrow> (pyobj \<Rightarrow> string \<Rightarrow> exn option) \<Rightarrow>
   string \<Rightarrow> string list \<Rightarrow> exn + notebook_report" where
  "run_tests load ev code_file tests =
     (case load code_file of
        Inl e \<Rightarrow> Inl e
      | Inr m \<Rightarrow>
          (case notebook_loop (notebook_test ev (notebook_candidate m)) 0 tests ([], []) of
             (ps, fs) \<Rightarrow>
               (case rate ps tests of
                  Inl e \<Rightarrow> Inl e
                | Inr r \<Rightarrow>
                    Inr \<lparr>passed = ps, failed = fs, total = length tests,
                         pass_rate = r,
                         passed_count = length ps, failed_count = length fs\<rparr>)))"

section \<open>One outcome per test case\<close>

text \<open>
  What the specification asks of the two lists a run returns for the test list \<open>T\<close>, where
  \<open>f\<close> classifies one test case: the indices of each list ascend (so no index is there
  twice, and the order is the order of \<open>T\<close>), no index is in both, together they are the
  indices of \<open>T\<close>, and the entry at index \<open>i\<close> is the classification of \<open>T ! i\<close>.
\<close>

definition one_outcome_per_test ::
  "(string \<Rightarrow> outcome) \<Rightarrow> string list \<Rightarrow> nat list \<Rightarrow> (nat \<times> string) list \<Rightarrow> bool" where
  "one_outcome_per_test f T ps fs =
     (sorted_wrt (<) ps \<and> sorted_wrt (<) (map fst fs)
      \<and> set ps \<inter> set (map fst fs) = {}
      \<and> set ps \<union> set (map fst fs) = {0..<length T}
      \<and> length ps + length fs = length T
      \<and> (\<forall>i \<in> set ps. f (T ! i) = Passed)
      \<and> (\<forall>(i, msg) \<in> set fs. f (T ! i) = Failed msg))"

text \<open>The indices a loop that appends one outcome per test appends to \<open>passed\<close>, and the
  entries it appends to \<open>failed\<close>, from index \<open>i\<close> on.\<close>

fun passed_from :: "(string \<Rightarrow> outcome) \<Rightarrow> nat \<Rightarrow> string list \<Rightarrow> nat list" where
  "passed_from f i [] = []"
| "passed_from f i (t # ts) =
     (case f t of
        Passed \<Rightarrow> i # passed_from f (Suc i) ts
      | Failed msg \<Rightarrow> passed_from f (Suc i) ts)"

fun failed_from :: "(string \<Rightarrow> outcome) \<Rightarrow> nat \<Rightarrow> string list \<Rightarrow> (nat \<times> string) list" where
  "failed_from f i [] = []"
| "failed_from f i (t # ts) =
     (case f t of
        Passed \<Rightarrow> failed_from f (Suc i) ts
      | Failed msg \<Rightarrow> (i, msg) # failed_from f (Suc i) ts)"

text \<open>
  A re-derivation that neither reads nor changes the runner's frame has the same outcome
  in every frame and returns the frame as it got it; \<open>pure_rd rd\<close> is then its outcome.
  \<open>tests_frame_free ev rd candidate T\<close> says this of the argument text of every test of \<open>T\<close>
  that the runner re-derives, and \<open>classify\<close> is what one iteration of
  \<open>Task3/test_runner.py\<close> appends for such a test.
\<close>

definition pure_rd :: "rederive \<Rightarrow> pyobj \<Rightarrow> string \<Rightarrow> exn + string" where
  "pure_rd rd candidate input_val =
     fst (rd candidate input_val \<lparr>local_test_cases = [], local_passed = [], local_failed = []\<rparr>)"

definition frame_free :: "rederive \<Rightarrow> pyobj \<Rightarrow> string \<Rightarrow> bool" where
  "frame_free rd candidate input_val =
     (\<forall>fr. rd candidate input_val fr = (pure_rd rd candidate input_val, fr))"

definition tests_frame_free ::
  "(pyobj \<Rightarrow> string \<Rightarrow> exn option) \<Rightarrow> rederive \<Rightarrow> pyobj \<Rightarrow> string list \<Rightarrow> bool" where
  "tests_frame_free ev rd candidate T =
     (\<forall>t \<in> set T.
        case ev candidate (normalize_test t) of
          Some (AssertionError a) \<Rightarrow>
            (case re_search (normalize_test t) of
               Some (input_val, g2) \<Rightarrow> frame_free rd candidate input_val
             | None \<Rightarrow> True)
        | Some (Error kind msg) \<Rightarrow> True
        | None \<Rightarrow> True)"

definition failure_message :: "rederive \<Rightarrow> pyobj \<Rightarrow> string \<Rightarrow> string" where
  "failure_message rd candidate test_code =
     (case re_search test_code of
        Some (input_val, g2) \<Rightarrow>
          (case pure_rd rd candidate input_val of
             Inr actual \<Rightarrow> ''Expected: '' @ strip g2 @ '', Got: '' @ actual
           | Inl ex \<Rightarrow> ''Assertion failed: '' @ exn_str ex)
      | None \<Rightarrow> ''Assertion failed'')"

definition classify ::
  "(pyobj \<Rightarrow> string \<Rightarrow> exn option) \<Rightarrow> rederive \<Rightarrow> pyobj \<Rightarrow> string \<Rightarrow> outcome" where
  "classify ev rd candidate test_case =
     (case ev candidate (normalize_test test_case) of
        None \<Rightarrow> Passed
      | Some (AssertionError msg) \<Rightarrow> Failed (failure_message rd candidate (normalize_test test_case))
      | Some (Error kind msg) \<Rightarrow> Failed (''Error: '' @ kind @ '': '' @ msg))"

definition append_outcome :: "outcome \<Rightarrow> nat \<Rightarrow> frame \<Rightarrow> frame" where
  "append_outcome out i fr =
     (case out of
        Passed \<Rightarrow> fr\<lparr>local_passed := local_passed fr @ [i]\<rparr>
      | Failed msg \<Rightarrow> fr\<lparr>local_failed := local_failed fr @ [(i, msg)]\<rparr>)"

section \<open>The scenarios of the specification\<close>

text \<open>
  A squaring function bound as the candidate, a module that declares \<open>foo\<close>, \<open>_helper\<close> and
  \<open>bar\<close> in that order, a module with a private function only, and a file that does not
  load; with what the interpreter answers on the test strings used below. The last test
  string has an argument text that, evaluated in the runner's frame, appends three
  indices to the list \<open>passed\<close> before it yields 3; in the namespace of \<open>exec\<close>, which has
  no name \<open>passed\<close>, it only yields 3.
\<close>

definition square :: pyobj where
  "square = \<lparr>ident = 1, callable = True, truthy = True, dunder_name = Some ''square'',
             type_name = ''function''\<rparr>"

definition foo :: pyobj where
  "foo = \<lparr>ident = 2, callable = True, truthy = True, dunder_name = Some ''foo'',
          type_name = ''function''\<rparr>"

definition helper :: pyobj where
  "helper = \<lparr>ident = 3, callable = True, truthy = True, dunder_name = Some ''_helper'',
             type_name = ''function''\<rparr>"

definition bar :: pyobj where
  "bar = \<lparr>ident = 4, callable = True, truthy = True, dunder_name = Some ''bar'',
          type_name = ''function''\<rparr>"

definition example_load :: "string \<Rightarrow> exn + module" where
  "example_load code_file =
     (if code_file = ''square.py'' then Inr [(''square'', square)]
      else if code_file = ''foo_helper_bar.py''
        then Inr [(''foo'', foo), (''_helper'', helper), (''bar'', bar)]
      else if code_file = ''private_only.py'' then Inr [(''_helper'', helper)]
      else Inl (Error ''SyntaxError'' ''invalid syntax (broken.py, line 1)''))"

definition extend_passed_test :: string where
  "extend_passed_test = ''candidate(locals().get('passed', []).extend([0,0,0]) or 3) == 10''"

definition example_ev :: "pyobj \<Rightarrow> string \<Rightarrow> exn option" where
  "example_ev candidate test_code =
     (if ident candidate = 1 \<and> test_code = ''assert candidate(3) == 9'' then None
      else if ident candidate = 1 \<and> test_code = ''assert candidate(3) == 10''
        then Some (AssertionError [])
      else if ident candidate = 1
              \<and> test_code = ''assert candidate(3) != 9 and candidate(4) == 16''
        then Some (AssertionError [])
      else if ident candidate = 1
              \<and> test_code = ''assert candidate(3) == 10, \"division by zero\"''
        then Some (AssertionError ''division by zero'')
      else if ident candidate = 1 \<and> test_code = ''assert '' @ extend_passed_test
        then Some (AssertionError [])
      else if test_code = ''assert candidate(1 / 0) == 1''
        then Some (Error ''ZeroDivisionError'' ''division by zero'')
      else Some (Error ''NameError'' ''name 'undefined' is not defined''))"

definition example_rd :: rederive where
  "example_rd candidate input_val fr =
     (if ident candidate = 1 \<and> input_val = ''3'' then (Inr ''9'', fr)
      else if ident candidate = 1
              \<and> input_val = ''locals().get('passed', []).extend([0,0,0]) or 3''
        then (Inr ''9'', fr\<lparr>local_passed := local_passed fr @ [0, 0, 0]\<rparr>)
      else (Inl (Error ''SyntaxError'' ''unmatched ')' (<string>, line 1)''), fr))"

section \<open>code\_enhancer.py\<close>

text \<open>
  The syntax tree of a file, as far as the resolvers look at it: a node is a
  \<open>FunctionDef\<close> with its name, or any other node, and has child nodes in source order.
  \<open>ast.parse\<close> is a parameter of the model; \<open>parse content = None\<close> stands for the
  exception it raises on text that is not Python.
\<close>

datatype node = FunctionDef string "node list" | OtherNode "node list"

fun children :: "node \<Rightarrow> node list" where
  "children (FunctionDef name body) = body"
| "children (OtherNode body) = body"

fun node_count :: "node \<Rightarrow> nat" where
  "node_count (FunctionDef name body) = Suc (sum_list (map node_count body))"
| "node_count (OtherNode body) = Suc (sum_list (map node_count body))"

text \<open>\<open>ast.walk\<close> takes nodes from the front of a queue and puts their children at its
  back: \<open>ast.walk(tree)\<close> is \<open>walk [tree]\<close>, breadth first.\<close>

function walk :: "node list \<Rightarrow> node list" where
  "walk [] = []"
| "walk (n # todo) = n # walk (todo @ children n)"
  by pat_completeness auto
termination
proof (relation "measure (\<lambda>todo. sum_list (map node_count todo))")
  show "wf (measure (\<lambda>todo. sum_list (map node_count todo)))" by simp
next
  fix n :: node and todo :: "node list"
  show "(todo @ children n, n # todo) \<in> measure (\<lambda>todo. sum_list (map node_count todo))"
    by (cases n) simp_all
qed

text \<open>The names of the \<open>FunctionDef\<close> nodes that do not start with an underscore, in the
  order given.\<close>

fun public_function_names :: "node list \<Rightarrow> string list" where
  "public_function_names [] = []"
| "public_function_names (FunctionDef name body # ns) =
     (if \<not> startswith ''_'' name then name # public_function_names ns
      else public_function_names ns)"
| "public_function_names (OtherNode body # ns) = public_function_names ns"

definition get_function_info ::
  "(string \<Rightarrow> node option) \<Rightarrow> string \<Rightarrow> string \<Rightarrow> string option \<times> string list" where
  "get_function_info parse content problem_id =
     (case parse content of
        None \<Rightarrow> (None, [])
      | Some tree \<Rightarrow>
          (case public_function_names (walk [tree]) of
             [] \<Rightarrow> (None, [])
           | primary_func # others \<Rightarrow>
               (Some primary_func,
                (if primary_func \<noteq> ''candidate'' then [''candidate''] else []) @
                (if problem_id = ''HumanEval/94'' \<and> primary_func \<noteq> ''skjkasdkd''
                 then [''skjkasdkd''] else []))))"

text \<open>
  \<open>enhance_file\<close> on the text of the source file: the text written to the target path and
  the returned flag. \<open>shutil.copy2\<close> writes the source text itself.
\<close>

definition alias_line :: "string \<Rightarrow> string \<Rightarrow> string" where
  "alias_line primary_func alias = alias @ '' = '' @ primary_func @ ''\<newline>''"

definition enhance_file ::
  "(string \<Rightarrow> node option) \<Rightarrow> string \<Rightarrow> string \<Rightarrow> string \<times> bool" where
  "enhance_file parse content problem_id =
     (case get_function_info parse content problem_id of
        (None, aliases) \<Rightarrow> (content, False)
      | (Some primary_func, aliases) \<Rightarrow>
          if primary_func = [] \<or> aliases = [] then (content, False)
          else
            (let needed_aliases = filter (\<lambda>alias. \<not> str_in alias content) aliases
             in if needed_aliases = [] then (content, False)
                else (rstrip content @ ''\<newline>\<newline>'' @
                      ''# Auto-generated aliases for test compatibility\<newline>'' @
                      concat (map (alias_line primary_func) needed_aliases), True)))"

text \<open>
  Loading the text that \<open>enhance_file\<close> wrote runs the statements of the source and then
  the appended lines \<^verbatim>\<open>{alias} = {primary_func}\<close>, top to bottom. With \<open>m\<close> the
  namespace the statements of the source leave, each line looks \<open>primary_func\<close> up among
  the names of the module and then among the built-in names, binds the alias to the
  object found, and raises \<open>NameError\<close> when there is none (the primary function is a
  method or a nested function, and no built-in has its name).
\<close>

definition lookup_name :: "module \<Rightarrow> module \<Rightarrow> string \<Rightarrow> pyobj option" where
  "lookup_name builtins m name =
     (case getattr m name of Some obj \<Rightarrow> Some obj | None \<Rightarrow> getattr builtins name)"

fun exec_alias_lines :: "module \<Rightarrow> module \<Rightarrow> string \<Rightarrow> string list \<Rightarrow> exn + module" where
  "exec_alias_lines builtins m primary_func [] = Inr m"
| "exec_alias_lines builtins m primary_func (alias # rest) =
     (case lookup_name builtins m primary_func of
        None \<Rightarrow> Inl (Error ''NameError''
                  (''name '' @ CHR 0x27 # primary_func @ CHR 0x27 # '' is not defined''))
      | Some obj \<Rightarrow> exec_alias_lines builtins (m @ [(alias, obj)]) primary_func rest)"

section \<open>pytest\_cov\_enhanced\_analyzer.py\<close>

definition get_function_name :: "(string \<Rightarrow> node option) \<Rightarrow> string \<Rightarrow> string \<Rightarrow> string" where
  "get_function_name parse content problem_id =
     (if problem_id = ''HumanEval/94'' \<and> str_in ''def skjkasdkd'' content then ''skjkasdkd''
      else (case parse content of
              None \<Rightarrow> ''candidate''
            | Some tree \<Rightarrow>
                (case public_function_names (walk [tree]) of
                   [] \<Rightarrow> ''candidate''
                 | name # others \<Rightarrow> name)))"

text \<open>
  The generated test file starts with
  \<^verbatim>\<open>
  try:
      from {solution_module} import {func_name}
  except ImportError as e:
      print(f"Import error: {e}")
      {func_name} = None

  candidate = {func_name}
  skjkasdkd = {func_name}  # For HumanEval/94
  \<close>
  The import raises \<open>ImportError\<close> when the solution cannot be imported (\<open>None\<close> below) or
  is a module without an attribute \<open>func_name\<close>; the name is then bound to \<open>None\<close>.
  \<open>test_file_bindings\<close> is the namespace these lines leave, in the order they bind. An
  exception of another class ends the test file before any binding and is not covered.
  \<open>test_file_tests\<close> are the bodies of the test functions \<open>test_case_0\<close>, \<open>test_case_1\<close>,
  ... that follow, one for each test case.
\<close>

definition test_file_bindings :: "module option \<Rightarrow> string \<Rightarrow> module" where
  "test_file_bindings solution func_name =
     (let imported =
        (case solution of
           None \<Rightarrow> py_None
         | Some m \<Rightarrow> (case getattr m func_name of Some obj \<Rightarrow> obj | None \<Rightarrow> py_None))
      in [(func_name, imported), (''candidate'', imported), (''skjkasdkd'', imported)])"

fun test_file_tests :: "string list \<Rightarrow> string list" where
  "test_file_tests [] = []"
| "test_file_tests (test_case # rest) =
     (let test_code = strip test_case
      in (if \<not> startswith ''assert'' test_code then ''assert '' @ test_code else test_code)
         # test_file_tests rest)"

record CoverageResult =
  problem_id :: string
  llm_implementation :: string
  tests_passed :: nat
  tests_failed :: nat
  total_tests :: nat
  line_coverage :: real
  branch_coverage :: "real option"
  interpretation_line :: string
  error_details :: "string list"

text \<open>\<open>re.search(r'(\d+) ' + word, output)\<close>: the leftmost run of digits that a space and
  the word follow, as a number.\<close>

definition is_digit :: "char \<Rightarrow> bool" where
  "is_digit c = (c \<in> set ''0123456789'')"

definition int_of_digits :: "string \<Rightarrow> nat" where
  "int_of_digits ds = foldl (\<lambda>n c. 10 * n + (of_char c - 48)) 0 ds"

fun count_search :: "string \<Rightarrow> string \<Rightarrow> nat option" where
  "count_search word [] = None"
| "count_search word (c # cs) =
     (let ds = takeWhile is_digit (c # cs)
      in if ds \<noteq> [] \<and> startswith (CHR '' '' # word) (drop (length ds) (c # cs))
         then Some (int_of_digits ds)
         else count_search word cs)"

text \<open>\<open>str.lower()\<close> on code points below 256.\<close>

definition lower_char :: "char \<Rightarrow> char" where
  "lower_char c =
     (let n = (of_char c :: nat)
      in if (65 \<le> n \<and> n \<le> 90) \<or> (192 \<le> n \<and> n \<le> 222 \<and> n \<noteq> 215)
         then char_of (n + 32) else c)"

definition parse_test_counts :: "string \<Rightarrow> nat \<Rightarrow> nat \<times> nat" where
  "parse_test_counts output n_tests =
     (let p = (case count_search ''passed'' output of Some n \<Rightarrow> n | None \<Rightarrow> 0);
          f = (case count_search ''failed'' output of Some n \<Rightarrow> n | None \<Rightarrow> 0)
      in if p = 0 \<and> f = 0
         then (if str_in ''passed'' (map lower_char output) then (n_tests, f) else (p, n_tests))
         else (p, f))"

fun str_nat :: "nat \<Rightarrow> string" where
  "str_nat n =
     (if n < 10 then [char_of (48 + n)] else str_nat (n div 10) @ [char_of (48 + n mod 10)])"

definition generate_interpretation :: "nat \<Rightarrow> nat \<Rightarrow> real \<Rightarrow> real option \<Rightarrow> string" where
  "generate_interpretation p f line_cov branch_cov =
     (if f > 0 then str_nat f @ '' test(s) failed - fix failing tests first''
      else if line_cov < 50 then ''Low line coverage - significant untested code paths''
      else if line_cov < 80 then ''Moderate line coverage - some untested code paths''
      else if branch_cov \<noteq> None \<and> the branch_cov < 50
        then ''Low branch coverage - untested conditional logic and error paths''
      else if branch_cov \<noteq> None \<and> the branch_cov < 80
        then ''Moderate branch coverage - some conditional branches untested''
      else if line_cov \<ge> 90 then
        (if branch_cov \<noteq> None \<and> branch_cov \<noteq> Some 0 \<and> the branch_cov \<ge> 90
           then ''Excellent coverage - well-tested code''
         else if branch_cov \<noteq> None \<and> branch_cov \<noteq> Some 0
           then ''Good line coverage but some branches untested''
         else ''Good line coverage achieved'')
      else ''Adequate coverage'')"

fun split_lines :: "string \<Rightarrow> string \<Rightarrow> string list" where
  "split_lines cur [] = [rev cur]"
| "split_lines cur (c # cs) =
     (if c = CHR 0x0A then rev cur # split_lines [] cs else split_lines (c # cur) cs)"

fun collect_errors :: "string list \<Rightarrow> string list \<Rightarrow> string list" where
  "collect_errors errors [] = errors"
| "collect_errors errors (line # rest) =
     (if str_in ''FAILED'' line \<or> str_in ''ERROR'' line \<or> str_in ''AssertionError'' line
      then (let errors' = errors @ [strip line]
            in if length errors' \<ge> 3 then errors' else collect_errors errors' rest)
      else collect_errors errors rest)"

definition extract_errors :: "string \<Rightarrow> string list" where
  "extract_errors output = collect_errors [] (split_lines [] output)"

text \<open>
  What \<^verbatim>\<open>subprocess.run(cmd, ..., timeout=30)\<close> meets: a pytest process that would end
  after so many seconds with its two outputs, or an exception before that (the test file
  cannot be written, pytest cannot be started). The process is cut off, and
  \<open>TimeoutExpired\<close> raised, when it needs more than the timeout.
\<close>

datatype process = Finishes real string string | Fails exn

datatype run_error = TimeoutExpired | OtherException exn

definition subprocess_run :: "real \<Rightarrow> process \<Rightarrow> run_error + string \<times> string" where
  "subprocess_run timeout p =
     (case p of
        Finishes seconds out err \<Rightarrow>
          if timeout < seconds then Inl TimeoutExpired else Inr (out, err)
      | Fails e \<Rightarrow> Inl (OtherException e))"

text \<open>\<open>cov\<close> is what \<open>_parse_coverage\<close> reads from the coverage file; saving the HTML
  report and removing the temporary directory do not change the result.\<close>

definition run_pytest_with_coverage ::
  "process \<Rightarrow> real \<times> real option \<Rightarrow> string list \<Rightarrow> string \<Rightarrow> CoverageResult" where
  "run_pytest_with_coverage p cov test_cases pid =
     (case subprocess_run 30 p of
        Inr (out, err) \<Rightarrow>
          (case parse_test_counts (out @ err) (length test_cases) of
             (tp, tf) \<Rightarrow>
               \<lparr>problem_id = pid, llm_implementation = '''',
                tests_passed = tp, tests_failed = tf, total_tests = length test_cases,
                line_coverage = fst cov, branch_coverage = snd cov,
                interpretation_line = generate_interpretation tp tf (fst cov) (snd cov),
                error_details = extract_errors (out @ err)\<rparr>)
      | Inl TimeoutExpired \<Rightarrow>
          \<lparr>problem_id = pid, llm_implementation = '''',
           tests_passed = 0, tests_failed = length test_cases,
           total_tests = length test_cases,
           line_coverage = 0, branch_coverage = None,
           interpretation_line = ''Timeout - execution exceeded 30 seconds'',
           error_details = [''Timeout'']\<rparr>
      | Inl (OtherException e) \<Rightarrow>
          \<lparr>problem_id = pid, llm_implementation = '''',
           tests_passed = 0, tests_failed = length test_cases,
           total_tests = length test_cases,
           line_coverage = 0, branch_coverage = None,
           interpretation_line = ''Error: '' @ exn_str e,
           error_details = [exn_str e]\<rparr>)"

section \<open>A solution file for the resolvers\<close>

text \<open>
  The text of a solution file that declares \<open>foo\<close>, \<open>_helper\<close> and \<open>bar\<close>, its syntax tree
  (a module whose three statements are function definitions), and the text and tree
  after the two alias lines have been appended for problem \<open>HumanEval/94\<close>.
\<close>

definition foo_body :: string where
  "foo_body = ''def foo(x):\<newline>    return _helper(x)\<newline>\<newline>def _helper(x):\<newline>    return bar(x)\<newline>\<newline>def bar(x):\<newline>    return x''"

definition foo_source :: string where
  "foo_source = foo_body @ ''\<newline>''"

definition foo_enhanced :: string where
  "foo_enhanced = foo_body @ ''\<newline>\<newline># Auto-generated aliases for test compatibility\<newline>candidate = foo\<newline>skjkasdkd = foo\<newline>''"

definition foo_defs :: "node list" where
  "foo_defs = [FunctionDef ''foo'' [OtherNode [], OtherNode [OtherNode []]],
               FunctionDef ''_helper'' [OtherNode [], OtherNode [OtherNode []]],
               FunctionDef ''bar'' [OtherNode [], OtherNode [OtherNode []]]]"

text \<open>
  Two solution files for problem \<open>HumanEval/94\<close>: one whose function is called \<open>solve\<close>
  and whose first line is a comment that mentions \<open>candidate\<close> and \<open>skjkasdkd\<close>, and one
  whose function \<open>solve\<close> is a method of a class; with the modules they load to.
\<close>

definition commented_source :: string where
  "commented_source = ''# candidate solution for skjkasdkd\<newline>def solve(lst):\<newline>    return 0\<newline>''"

definition method_source :: string where
  "method_source = ''class Solution:\<newline>    def solve(self, lst):\<newline>        return 0\<newline>''"

definition solve :: pyobj where
  "solve = \<lparr>ident = 5, callable = True, truthy = True, dunder_name = Some ''solve'',
            type_name = ''function''\<rparr>"

definition Solution :: pyobj where
  "Solution = \<lparr>ident = 6, callable = True, truthy = True, dunder_name = Some ''Solution'',
               type_name = ''type''\<rparr>"

definition commented_module :: module where
  "commented_module = [(''solve'', solve)]"

definition method_module :: module where
  "method_module = [(''Solution'', Solution)]"

definition example_parse :: "string \<Rightarrow> node option" where
  "example_parse content =
     (if content = foo_source then Some (OtherNode foo_defs)
      else if content = foo_enhanced
        then Some (OtherNode (foo_defs @ [OtherNode [OtherNode [], OtherNode []],
                                          OtherNode [OtherNode [], OtherNode []]]))
      else if content = commented_source
        then Some (OtherNode [FunctionDef ''solve'' [OtherNode [OtherNode []],
                                                     OtherNode [OtherNode []]]])
      else if content = method_source
        then Some (OtherNode [OtherNode [FunctionDef ''solve''
                                [OtherNode [OtherNode [], OtherNode []],
                                 OtherNode [OtherNode []]]]])
      else None)"

section \<open>The loop of Task3/test\_runner.py\<close>

lemma append_outcome_tests [simp]:
  "local_test_cases (append_outcome out i fr) = local_test_cases fr"
  by (simp add: append_outcome_def split: outcome.splits)

lemma run_loop_appends:
  assumes step: "\<forall>j < length T. \<forall>fr. step j (T ! j) fr = append_outcome (f (T ! j)) j fr"
  shows "local_test_cases fr = T \<Longrightarrow> i \<le> length T \<Longrightarrow>
     run_loop step i fr =
       Some (fr\<lparr>local_passed := local_passed fr @ passed_from f i (drop i T),
                 local_failed := local_failed fr @ failed_from f i (drop i T)\<rparr>)"
proof (induction "length T - i" arbitrary: i fr)
  case 0
  then have "i = length T" by simp
  with 0 show ?case by (subst run_loop.simps) simp
next
  case (Suc n)
  then have i: "i < length T" by simp
  let ?fr = "append_outcome (f (T ! i)) i fr"
  have d: "drop i T = T ! i # drop (Suc i) T"
    using i by (simp add: Cons_nth_drop_Suc)
  have "run_loop step i fr = run_loop step (Suc i) ?fr"
    using i Suc.prems(1) step by (subst run_loop.simps) simp
  also have "\<dots> = Some (?fr\<lparr>local_passed := local_passed ?fr @ passed_from f (Suc i) (drop (Suc i) T),
                 local_failed := local_failed ?fr @ failed_from f (Suc i) (drop (Suc i) T)\<rparr>)"
    using Suc.hyps(2) i Suc.prems(1) by (intro Suc.hyps(1)) simp_all
  also have "\<dots> = Some (fr\<lparr>local_passed := local_passed fr @ passed_from f i (drop i T),
                 local_failed := local_failed fr @ failed_from f i (drop i T)\<rparr>)"
    unfolding d by (cases "f (T ! i)") (simp_all add: append_outcome_def)
  finally show ?case .
qed

lemma frame_free_step:
  assumes "tests_frame_free ev rd candidate T" "t \<in> set T"
  shows "run_step ev rd candidate i t fr = append_outcome (classify ev rd candidate t) i fr"
proof (cases "ev candidate (normalize_test t)")
  case None
  then show ?thesis by (simp add: run_step_def classify_def append_outcome_def)
next
  case (Some e)
  show ?thesis
  proof (cases e)
    case (Error kind msg)
    with Some show ?thesis by (simp add: run_step_def classify_def append_outcome_def)
  next
    case (AssertionError a)
    show ?thesis
    proof (cases "re_search (normalize_test t)")
      case None
      with Some AssertionError show ?thesis
        by (simp add: run_step_def classify_def append_outcome_def record_failure_def
            failure_message_def)
    next
      case (Some g)
      obtain input_val g2 where g: "g = (input_val, g2)" by (cases g)
      from assms \<open>ev candidate (normalize_test t) = Some e\<close> AssertionError Some g
      have "frame_free rd candidate input_val"
        by (auto simp: tests_frame_free_def)
      then have r: "rd candidate input_val fr = (pure_rd rd candidate input_val, fr)"
        by (simp add: frame_free_def)
      from \<open>ev candidate (normalize_test t) = Some e\<close> AssertionError Some g r show ?thesis
        by (cases "pure_rd rd candidate input_val")
           (simp_all add: run_step_def classify_def append_outcome_def record_failure_def
            failure_message_def)
    qed
  qed
qed

section \<open>Rounding to a double\<close>

lemma round_half_even_int [simp]: "round_half_even (of_int n) = n"
  by (simp add: round_half_even_def)

lemma round_double_exact:
  fixes m e :: int
  assumes "2 ^ 52 \<le> m" "m < 2 ^ 53"
  shows "round_double (of_int m * 2 powr of_int e) = of_int m * 2 powr of_int e"
proof -
  let ?x = "of_int m * 2 powr (of_int e :: real)"
  have mpos: "0 < (of_int m :: real)" using assms(1) by simp
  have xpos: "0 < ?x" using mpos by simp
  have lo: "(2::real) powr 52 \<le> of_int m"
  proof -
    have "(2::real) powr 52 = 2 ^ 52" by (simp add: powr_realpow [symmetric])
    also have "\<dots> = of_int (2 ^ 52)" by simp
    also have "\<dots> \<le> of_int m" using assms(1) by (simp only: of_int_le_iff)
    finally show ?thesis .
  qed
  have hi: "of_int m < (2::real) powr 53"
  proof -
    have "(of_int m :: real) < of_int (2 ^ 53)" using assms(2) by (simp only: of_int_less_iff)
    also have "\<dots> = 2 powr 53" by (simp add: powr_realpow [symmetric])
    finally show ?thesis .
  qed
  have "\<lfloor>log 2 (of_int m :: real)\<rfloor> = 52"
    using floor_log_eq_powr_iff [of "of_int m :: real" 2 52] mpos lo hi by simp
  moreover have "log 2 ?x = log 2 (of_int m) + of_int e"
    using mpos by (simp add: log_mult)
  ultimately have fl: "\<lfloor>log 2 \<bar>?x\<bar>\<rfloor> = 52 + e"
    using xpos by simp
  have u: "2 powr (of_int \<lfloor>log 2 \<bar>?x\<bar>\<rfloor> - 52) = 2 powr (of_int e :: real)"
    by (simp add: fl)
  have "round_double ?x
      = sgn ?x * of_int (round_half_even (\<bar>?x\<bar> / 2 powr of_int e)) * 2 powr of_int e"
    using xpos unfolding round_double_def u Let_def by simp
  also have "\<bar>?x\<bar> / 2 powr of_int e = of_int m" using mpos by simp
  also have "sgn ?x = 1" using xpos by simp
  finally show ?thesis by simp
qed

lemma round_double_0 [simp]: "round_double 0 = 0"
  by (simp add: round_double_def)

lemma round_double_half [simp]: "round_double (1 / 2) = 1 / 2"
  using round_double_exact [of "2 ^ 52" "- 53"]
  by (simp add: powr_minus powr_realpow [symmetric] field_simps)

lemma round_double_2 [simp]: "round_double 2 = 2"
  using round_double_exact [of "2 ^ 52" "- 51"] by (simp add: powr_minus field_simps)

lemma round_double_50 [simp]: "round_double 50 = 50"
  using round_double_exact [of "25 * 2 ^ 48" "- 47"] by (simp add: powr_minus field_simps)

lemma round_double_200 [simp]: "round_double 200 = 200"
  using round_double_exact [of "25 * 2 ^ 48" "- 45"] by (simp add: powr_minus field_simps)

text \<open>Rounding keeps a value between zero and a double that bounds it.\<close>

lemma round_half_even_ge: "\<lfloor>y\<rfloor> \<le> round_half_even y"
  by (simp add: round_half_even_def Let_def)

lemma round_half_even_le: "y \<le> of_int N \<Longrightarrow> round_half_even y \<le> N"
proof (cases "y = of_int \<lfloor>y\<rfloor>")
  case True
  assume "y \<le> of_int N"
  then have "\<lfloor>y\<rfloor> \<le> N" by (simp add: floor_le_iff) 
  moreover have "round_half_even y = \<lfloor>y\<rfloor>"
    using True round_half_even_int [of "\<lfloor>y\<rfloor>"] by simp
  ultimately show ?thesis by simp
next
  case False
  assume le: "y \<le> of_int N"
  have "of_int \<lfloor>y\<rfloor> < y" using False by (metis of_int_floor_le order_less_le)
  with le have "of_int \<lfloor>y\<rfloor> < (of_int N :: real)" by simp
  then have "\<lfloor>y\<rfloor> < N" by simp
  moreover have "round_half_even y \<le> \<lfloor>y\<rfloor> + 1"
    by (simp add: round_half_even_def Let_def)
  ultimately show ?thesis by simp
qed

lemma round_double_nonneg: "0 \<le> x \<Longrightarrow> 0 \<le> round_double x"
proof -
  assume x: "0 \<le> x"
  show ?thesis
  proof (cases "x = 0")
    case True
    then show ?thesis by (simp add: round_double_def)
  next
    case False
    with x have pos: "0 < x" by simp
    let ?u = "2 powr (of_int \<lfloor>log 2 \<bar>x\<bar>\<rfloor> - 52) :: real"
    have u: "0 < ?u" by simp
    have "0 \<le> \<bar>x\<bar> / ?u" using u by simp
    then have "0 \<le> \<lfloor>\<bar>x\<bar> / ?u\<rfloor>" by simp
    from this round_half_even_ge [of "\<bar>x\<bar> / ?u"]
    have "0 \<le> round_half_even (\<bar>x\<bar> / ?u)" by (rule order_trans)
    then have "0 \<le> (of_int (round_half_even (\<bar>x\<bar> / ?u)) :: real) * ?u" using u by simp
    then show ?thesis using pos by (simp add: round_double_def Let_def)
  qed
qed

lemma round_double_le:
  fixes m e :: int
  assumes m: "2 ^ 52 \<le> m" "m < 2 ^ 53" and x: "0 \<le> x" "x \<le> of_int m * 2 powr of_int e"
  shows "round_double x \<le> of_int m * 2 powr of_int e"
proof (cases "x = 0")
  case True
  have "0 \<le> (of_int m :: real) * 2 powr of_int e" using m(1) by simp
  with True show ?thesis by (simp add: round_double_def)
next
  case False
  with x have pos: "0 < x" by simp
  let ?c = "of_int m * 2 powr (of_int e :: real)"
  let ?k = "\<lfloor>log 2 \<bar>x\<bar>\<rfloor>"
  let ?u = "2 powr (of_int ?k - 52) :: real"
  have mpos: "0 < (of_int m :: real)" using m(1) by simp
  have cpos: "0 < ?c" using mpos by simp
  have hi: "of_int m < (2::real) powr 53"
  proof -
    have "(of_int m :: real) < of_int (2 ^ 53)" using m(2) by (simp only: of_int_less_iff)
    also have "\<dots> = 2 powr 53" by (simp add: powr_realpow [symmetric])
    finally show ?thesis .
  qed
  have "log 2 x \<le> log 2 ?c" using pos x(2) by simp
  also have "\<dots> = log 2 (of_int m) + of_int e" using mpos by (simp add: log_mult)
  also have "\<dots> < 53 + of_int e"
  proof -
    have "log 2 (of_int m) < (53 :: real)"
      using mpos hi log_less_iff [of 2 "of_int m" 53] by simp
    then show ?thesis by simp
  qed
  finally have "log 2 x < of_int (53 + e)" by simp
  then have "?k < 53 + e" using pos by (simp add: floor_less_iff)
  then have d: "0 \<le> e + 52 - ?k" by simp
  define n where "n = nat (e + 52 - ?k)"
  have n: "of_int e - (of_int ?k - 52) = (real n)"
    using d by (simp add: n_def)
  have cu: "?c / ?u = of_int (m * 2 ^ n)"
  proof -
    have "?c / ?u = of_int m * 2 powr (of_int e - (of_int ?k - 52))"
      by (simp add: powr_diff)
    also have "\<dots> = of_int m * 2 powr (real n)" by (simp only: n)
    also have "\<dots> = of_int m * 2 ^ n" by (simp add: powr_realpow)
    finally show ?thesis by simp
  qed
  have u: "0 < ?u" by simp
  have "\<bar>x\<bar> / ?u \<le> ?c / ?u" using x u pos by (simp add: divide_right_mono)
  then have "\<bar>x\<bar> / ?u \<le> of_int (m * 2 ^ n)" by (simp only: cu)
  then have "round_half_even (\<bar>x\<bar> / ?u) \<le> m * 2 ^ n" by (rule round_half_even_le)
  then have "(of_int (round_half_even (\<bar>x\<bar> / ?u)) :: real) \<le> of_int (m * 2 ^ n)"
    by (simp only: of_int_le_iff)
  then have "of_int (round_half_even (\<bar>x\<bar> / ?u)) * ?u \<le> of_int (m * 2 ^ n) * ?u"
    using u by (simp only: mult_le_cancel_right_pos)
  also have "of_int (m * 2 ^ n) * ?u = ?c"
  proof -
    have "?c / ?u * ?u = ?c" using u by simp
    then show ?thesis by (simp only: cu)
  qed
  finally show ?thesis using pos by (simp add: round_double_def Let_def)
qed

lemma round_double_le_1: "0 \<le> x \<Longrightarrow> x \<le> 1 \<Longrightarrow> round_double x \<le> 1"
  using round_double_le [of "2 ^ 52" x "- 52"] by (simp add: powr_minus field_simps)

lemma round_double_le_100: "0 \<le> x \<Longrightarrow> x \<le> 100 \<Longrightarrow> round_double x \<le> 100"
  using round_double_le [of "25 * 2 ^ 48" x "- 46"] by (simp add: powr_minus field_simps)

section \<open>The reports of the two runners\<close>

lemma passed_from_bounds:
  "j \<in> set (passed_from f i ts) \<Longrightarrow> i \<le> j \<and> j < i + length ts \<and> f (ts ! (j - i)) = Passed"
proof (induction ts arbitrary: i)
  case Nil
  then show ?case by simp
next
  case (Cons t ts)
  from Cons.prems consider (head) "j = i" "f t = Passed"
    | (tail) "j \<in> set (passed_from f (Suc i) ts)"
    by (cases "f t") auto
  then show ?case
  proof cases
    case head
    then show ?thesis by simp
  next
    case tail
    from Cons.IH [OF tail] show ?thesis
      by (auto simp: nth_Cons')
  qed
qed

lemma failed_from_bounds:
  "(j, msg) \<in> set (failed_from f i ts) \<Longrightarrow>
     i \<le> j \<and> j < i + length ts \<and> f (ts ! (j - i)) = Failed msg"
proof (induction ts arbitrary: i)
  case Nil
  then show ?case by simp
next
  case (Cons t ts)
  from Cons.prems consider (head) "j = i" "f t = Failed msg"
    | (tail) "(j, msg) \<in> set (failed_from f (Suc i) ts)"
    by (cases "f t") auto
  then show ?case
  proof cases
    case head
    then show ?thesis by simp
  next
    case tail
    from Cons.IH [OF tail] show ?thesis
      by (auto simp: nth_Cons')
  qed
qed

lemma rate_Inr:
  "rate ps T = Inr (if T \<noteq> [] then round_double (round_double (real (length ps) / real (length T)) * 100) else 0)"
  by (simp add: rate_def truediv_def)

lemma report_of_from:
  "report_of \<lparr>local_test_cases = T, local_passed = passed_from f 0 T,
              local_failed = failed_from f 0 T\<rparr>
   = Inr \<lparr>passed = passed_from f 0 T, failed = failed_from f 0 T, total = length T,
          pass_rate = (if T \<noteq> []
             then round_double (round_double (real (length (passed_from f 0 T)) / real (length T)) * 100)
             else 0)\<rparr>"
proof -
  have a: "\<not> list_ex (\<lambda>idx. \<not> idx < length T) (passed_from f 0 T)"
    using passed_from_bounds [of _ f 0 T] by (auto simp: list_ex_iff)
  have b: "\<not> list_ex (\<lambda>idx. \<not> idx < length T) (map fst (failed_from f 0 T))"
    using failed_from_bounds [of _ _ f 0 T] by (auto simp: list_ex_iff)
  show ?thesis
    using a b by (simp add: report_of_def rate_Inr)
qed

lemma run_tests_and_report_Some:
  assumes "get_candidate load code_file = Inr candidate"
    and "tests_frame_free ev rd candidate T"
  shows "run_tests_and_report load ev rd code_file T =
     Some (Inr \<lparr>passed = passed_from (classify ev rd candidate) 0 T,
          failed = failed_from (classify ev rd candidate) 0 T,
          total = length T,
          pass_rate = (if T \<noteq> []
             then round_double (round_double
                    (real (length (passed_from (classify ev rd candidate) 0 T)) / real (length T)) * 100)
             else 0)\<rparr>)"
proof -
  let ?f = "classify ev rd candidate"
  have step: "\<forall>j < length T. \<forall>fr. run_step ev rd candidate j (T ! j) fr
      = append_outcome (?f (T ! j)) j fr"
    using frame_free_step [OF assms(2)] by simp
  have "run_loop (run_step ev rd candidate) 0
          \<lparr>local_test_cases = T, local_passed = [], local_failed = []\<rparr>
      = Some \<lparr>local_test_cases = T, local_passed = passed_from ?f 0 T,
              local_failed = failed_from ?f 0 T\<rparr>"
    using run_loop_appends [of T "run_step ev rd candidate" ?f
        "\<lparr>local_test_cases = T, local_passed = [], local_failed = []\<rparr>" 0] step
    by simp
  then show ?thesis
    using assms(1) by (simp add: run_tests_and_report_def report_of_from)
qed

lemma notebook_loop_appends:
  "notebook_loop f i ts (ps, fs) = (ps @ passed_from f i ts, fs @ failed_from f i ts)"
  by (induction ts arbitrary: i ps fs) (auto split: outcome.splits)

lemma run_tests_Inr:
  assumes "load code_file = Inr m"
  shows "run_tests load ev code_file T =
     Inr \<lparr>passed = passed_from (notebook_test ev (notebook_candidate m)) 0 T,
          failed = failed_from (notebook_test ev (notebook_candidate m)) 0 T,
          total = length T,
          pass_rate = (if T \<noteq> []
             then round_double (round_double
                    (real (length (passed_from (notebook_test ev (notebook_candidate m)) 0 T))
                  / real (length T)) * 100)
             else 0),
          passed_count = length (passed_from (notebook_test ev (notebook_candidate m)) 0 T),
          failed_count = length (failed_from (notebook_test ev (notebook_candidate m)) 0 T)\<rparr>"
  using assms by (simp add: run_tests_def notebook_loop_appends rate_Inr)

section \<open>Properties of the string functions\<close>

lemma startswith_Nil [simp]: "startswith [] s"
  by (simp add: startswith_def)

lemma startswith_Cons_Cons [simp]:
  "startswith (a # p) (b # s) = (a = b \<and> startswith p s)"
  by (auto simp: startswith_def)

lemma startswith_Cons_Nil [simp]: "\<not> startswith (a # p) []"
  by (simp add: startswith_def)

section \<open>The scenarios, evaluated\<close>

lemma example_square_candidate: "get_candidate example_load ''square.py'' = Inr square"
  by (simp add: get_candidate_def example_load_def getattr_def dir_module_def square_def)

lemma normalize_bare_9: "normalize_test ''candidate(3) == 9'' = ''assert candidate(3) == 9''"
  by (simp add: normalize_test_def strip_def lstrip_def rstrip_def is_space_def)

lemma normalize_bare_10: "normalize_test ''candidate(3) == 10'' = ''assert candidate(3) == 10''"
  by (simp add: normalize_test_def strip_def lstrip_def rstrip_def is_space_def)

lemma normalize_extend_passed:
  "normalize_test extend_passed_test = ''assert '' @ extend_passed_test"
  by (simp add: normalize_test_def strip_def lstrip_def rstrip_def is_space_def
      extend_passed_test_def)

lemma re_search_3_10: "re_search ''assert candidate(3) == 10'' = Some (''3'', ''10'')"
  by (simp add: match_at_def match_after_paren_def match_expected_def is_space_def)

lemma re_search_extend_passed:
  "re_search (''assert '' @ extend_passed_test)
     = Some (''locals().get('passed', []).extend([0,0,0]) or 3'', ''10'')"
  by (simp add: match_at_def match_after_paren_def match_expected_def is_space_def
      extend_passed_test_def)

lemma strip_10: "strip ''10'' = ''10''"
  by (simp add: strip_def lstrip_def rstrip_def is_space_def)

lemma square_ident [simp]: "ident square = 1"
  by (simp add: square_def)

lemma step_square_9:
  "run_step example_ev example_rd square i ''candidate(3) == 9'' fr
     = fr\<lparr>local_passed := local_passed fr @ [i]\<rparr>"
  by (simp add: run_step_def normalize_bare_9 example_ev_def)

lemma ev_extend_passed:
  "example_ev square (''assert '' @ extend_passed_test) = Some (AssertionError [])"
  by (simp add: example_ev_def extend_passed_test_def)

lemma rd_extend_passed:
  "example_rd square ''locals().get('passed', []).extend([0,0,0]) or 3'' fr
     = (Inr ''9'', fr\<lparr>local_passed := local_passed fr @ [0, 0, 0]\<rparr>)"
  by (simp add: example_rd_def)

lemma step_extend_passed:
  "run_step example_ev example_rd square i extend_passed_test fr
     = fr\<lparr>local_passed := local_passed fr @ [0, 0, 0],
           local_failed := local_failed fr @ [(i, ''Expected: 10, Got: 9'')]\<rparr>"
  unfolding run_step_def normalize_extend_passed Let_def ev_extend_passed
    record_failure_def re_search_extend_passed
  by (simp add: rd_extend_passed strip_10)

lemma loop_pass_then_extend:
  "run_loop (run_step example_ev example_rd square) 0
      \<lparr>local_test_cases = [''candidate(3) == 9'', extend_passed_test],
       local_passed = [], local_failed = []\<rparr>
   = Some \<lparr>local_test_cases = [''candidate(3) == 9'', extend_passed_test],
           local_passed = [0, 0, 0, 0], local_failed = [(1, ''Expected: 10, Got: 9'')]\<rparr>"
  by (simp add: run_loop.simps step_square_9 step_extend_passed)

lemma report_pass_then_extend:
  "run_tests_and_report example_load example_ev example_rd ''square.py''
      [''candidate(3) == 9'', extend_passed_test]
   = Some (Inr \<lparr>passed = [0, 0, 0, 0], failed = [(1, ''Expected: 10, Got: 9'')],
                 total = 2, pass_rate = 200\<rparr>)"
  by (simp add: run_tests_and_report_def example_square_candidate loop_pass_then_extend
      report_of_def rate_def truediv_def)

section \<open>What the runners execute\<close>

lemma startswith_append: "startswith p (p @ s)"
  by (simp add: startswith_def)

lemma strip_decomp:
  "\<exists>l r. s = l @ strip s @ r \<and> (\<forall>c \<in> set l. is_space c) \<and> (\<forall>c \<in> set r. is_space c)"
proof -
  let ?r = "rev (takeWhile is_space (rev s))"
  let ?l = "takeWhile is_space (rstrip s)"
  have a: "s = rstrip s @ ?r"
    unfolding rstrip_def
    by (metis rev_append rev_rev_ident takeWhile_dropWhile_id)
  have b: "rstrip s = ?l @ strip s"
    by (simp add: strip_def lstrip_def)
  have c: "\<forall>c \<in> set ?r. is_space c"
    by (auto dest: set_takeWhileD)
  have d: "\<forall>c \<in> set ?l. is_space c"
    by (auto dest: set_takeWhileD)
  from a b have "s = ?l @ strip s @ ?r" by (metis append_assoc)
  with c d show ?thesis by blast
qed

lemma strip_ends:
  "strip s \<noteq> [] \<Longrightarrow> \<not> is_space (hd (strip s)) \<and> \<not> is_space (last (strip s))"
proof -
  assume ne: "strip s \<noteq> []"
  have h: "\<not> is_space (hd (strip s))"
    using ne unfolding strip_def lstrip_def by (metis hd_dropWhile)
  have "dropWhile is_space (rev s) = [] \<Longrightarrow> strip s = []"
    by (metis strip_def lstrip_def rstrip_def rev.simps(1) dropWhile.simps(1))
  with ne have rne: "dropWhile is_space (rev s) \<noteq> []" by blast
  have "\<not> is_space (last (rstrip s))"
    unfolding rstrip_def using rne by (simp add: last_rev hd_dropWhile)
  moreover have "last (strip s) = last (rstrip s)"
  proof -
    have "rstrip s = takeWhile is_space (rstrip s) @ strip s"
      by (simp add: strip_def lstrip_def)
    then show ?thesis using ne by (metis last_appendR)
  qed
  ultimately show ?thesis using h by simp
qed

lemma test_file_tests_map: "test_file_tests T = map normalize_test T"
  by (induction T) (simp_all add: normalize_test_def Let_def)

text \<open>
  Claim C9. Every test-case string is trimmed first: the trimmed text is the input
  without its leading and trailing whitespace. The code that runs is the trimmed text
  when that starts with \<open>assert\<close>, and \<open>assert\<close>, a space and the trimmed text
  otherwise. This code, and no other text, is what \<open>Task3/test_runner.py\<close> and
  \<open>Task2/test_runner_notebook.py\<close> hand to \<open>exec\<close>: what either records for the test
  is decided by the outcome of \<open>exec\<close> on it. It is also, for each test case in turn,
  the body of the test function that the analyzer writes to the pytest file.
\<close>

theorem normalized_code_is_what_runs:
  "(startswith ''assert'' (strip s) \<longrightarrow> normalize_test s = strip s)
   \<and> (\<not> startswith ''assert'' (strip s) \<longrightarrow> normalize_test s = ''assert '' @ strip s)
   \<and> (\<exists>l r. s = l @ strip s @ r \<and> (\<forall>c \<in> set l. is_space c) \<and> (\<forall>c \<in> set r. is_space c))
   \<and> (strip s \<noteq> [] \<longrightarrow> \<not> is_space (hd (strip s)) \<and> \<not> is_space (last (strip s)))
   \<and> run_step ev rd candidate i s fr =
        (case ev candidate (if startswith ''assert'' (strip s) then strip s
                            else ''assert '' @ strip s) of
           None \<Rightarrow> fr\<lparr>local_passed := local_passed fr @ [i]\<rparr>
         | Some (AssertionError msg) \<Rightarrow>
             record_failure rd candidate i
               (if startswith ''assert'' (strip s) then strip s else ''assert '' @ strip s) fr
         | Some (Error kind msg) \<Rightarrow>
             fr\<lparr>local_failed := local_failed fr @ [(i, ''Error: '' @ kind @ '': '' @ msg)]\<rparr>)
   \<and> notebook_test ev candidate s =
        (case ev candidate (if startswith ''assert'' (strip s) then strip s
                            else ''assert '' @ strip s) of
           None \<Rightarrow> Passed
         | Some e \<Rightarrow> Failed (exn_str e))
   \<and> (ev' candidate (normalize_test s) = ev candidate (normalize_test s) \<longrightarrow>
        run_step ev' rd candidate i s fr = run_step ev rd candidate i s fr
        \<and> notebook_test ev' candidate s = notebook_test ev candidate s)
   \<and> length (test_file_tests T) = length T
   \<and> (\<forall>j < length T. test_file_tests T ! j =
         (if startswith ''assert'' (strip (T ! j)) then strip (T ! j)
          else ''assert '' @ strip (T ! j)))"
proof -
  have n: "normalize_test u = (if startswith ''assert'' (strip u) then strip u
                            else ''assert '' @ strip u)" for u
    by (simp add: normalize_test_def Let_def)
  have a: "run_step ev rd candidate i s fr =
        (case ev candidate (normalize_test s) of
           None \<Rightarrow> fr\<lparr>local_passed := local_passed fr @ [i]\<rparr>
         | Some (AssertionError msg) \<Rightarrow> record_failure rd candidate i (normalize_test s) fr
         | Some (Error kind msg) \<Rightarrow>
             fr\<lparr>local_failed := local_failed fr @ [(i, ''Error: '' @ kind @ '': '' @ msg)]\<rparr>)"
    by (simp add: run_step_def Let_def)
  have b: "notebook_test ev candidate s =
        (case ev candidate (normalize_test s) of
           None \<Rightarrow> Passed
         | Some e \<Rightarrow> Failed (exn_str e))"
    by (simp add: notebook_test_def Let_def)
  have c: "ev' candidate (normalize_test s) = ev candidate (normalize_test s) \<longrightarrow>
        run_step ev' rd candidate i s fr = run_step ev rd candidate i s fr
        \<and> notebook_test ev' candidate s = notebook_test ev candidate s"
    by (simp add: run_step_def notebook_test_def Let_def)
  have d: "\<forall>j < length T. test_file_tests T ! j = normalize_test (T ! j)"
    by (simp add: test_file_tests_map)
  have e: "length (test_file_tests T) = length T"
    by (simp add: test_file_tests_map)
  show ?thesis
    using strip_decomp [of s] strip_ends [of s] a b c d e
    unfolding n by simp
qed

theorem normalized_code_is_what_runs_witness:
  "normalize_test ''  candidate(3) == 9 '' = ''assert candidate(3) == 9''
   \<and> normalize_test '' assert candidate(3) == 9'' = ''assert candidate(3) == 9''
   \<and> run_step example_ev example_rd square 0 ''  candidate(3) == 9 ''
        \<lparr>local_test_cases = [''  candidate(3) == 9 ''], local_passed = [], local_failed = []\<rparr>
      = \<lparr>local_test_cases = [''  candidate(3) == 9 ''], local_passed = [0], local_failed = []\<rparr>
   \<and> notebook_test example_ev square ''  candidate(3) == 9 '' = Passed
   \<and> test_file_tests [''  candidate(3) == 9 '', '' assert candidate(3) == 9'']
      = [''assert candidate(3) == 9'', ''assert candidate(3) == 9'']"
proof -
  have s1: "strip ''  candidate(3) == 9 '' = ''candidate(3) == 9''"
    by (simp add: strip_def lstrip_def rstrip_def is_space_def)
  have s2: "strip '' assert candidate(3) == 9'' = ''assert candidate(3) == 9''"
    by (simp add: strip_def lstrip_def rstrip_def is_space_def)
  have e: "example_ev square ''assert candidate(3) == 9'' = None"
    by (simp add: example_ev_def)
  show ?thesis
    using normalized_code_is_what_runs [of "''  candidate(3) == 9 ''" example_ev example_rd
        square 0
        "\<lparr>local_test_cases = [''  candidate(3) == 9 ''], local_passed = [], local_failed = []\<rparr>"
        example_ev "[''  candidate(3) == 9 '', '' assert candidate(3) == 9'']"]
      normalized_code_is_what_runs [of "'' assert candidate(3) == 9''" example_ev example_rd
        square 0
        "\<lparr>local_test_cases = [], local_passed = [], local_failed = []\<rparr>"
        example_ev "[]"]
    by (simp add: s1 s2 e test_file_tests_map normalize_test_def)
qed

section \<open>The loop records one outcome per test\<close>

lemma passed_from_sorted: "sorted_wrt (<) (passed_from f i ts)"
  by (induction ts arbitrary: i) (auto split: outcome.splits dest!: passed_from_bounds)

lemma failed_from_sorted: "sorted_wrt (<) (map fst (failed_from f i ts))"
  by (induction ts arbitrary: i) (auto split: outcome.splits dest!: failed_from_bounds)

lemma from_lengths:
  "length (passed_from f i ts) + length (failed_from f i ts) = length ts"
  by (induction ts arbitrary: i) (auto split: outcome.splits)

lemma from_union:
  "set (passed_from f i ts) \<union> set (map fst (failed_from f i ts)) = {i..<i + length ts}"
proof (induction ts arbitrary: i)
  case Nil
  then show ?case by simp
next
  case (Cons t ts)
  have "{i..<i + length (t # ts)} = insert i {Suc i..<Suc i + length ts}"
    by auto
  with Cons [of "Suc i"] show ?case
    by (cases "f t") auto
qed

lemma from_disjoint:
  "set (passed_from f i ts) \<inter> set (map fst (failed_from f i ts)) = {}"
proof -
  have "False" if "j \<in> set (passed_from f i ts)" "(j, msg) \<in> set (failed_from f i ts)" for j msg
    using passed_from_bounds [OF that(1)] failed_from_bounds [OF that(2)] by simp
  then show ?thesis by fastforce
qed

lemma from_one_outcome:
  "one_outcome_per_test f T (passed_from f 0 T) (failed_from f 0 T)"
proof -
  have a: "\<forall>i \<in> set (passed_from f 0 T). f (T ! i) = Passed"
    using passed_from_bounds [of _ f 0 T] by auto
  have b: "\<forall>(i, msg) \<in> set (failed_from f 0 T). f (T ! i) = Failed msg"
    using failed_from_bounds [of _ _ f 0 T] by auto
  show ?thesis
    unfolding one_outcome_per_test_def
    using a b passed_from_sorted [of f 0 T] failed_from_sorted [of f 0 T]
      from_disjoint [of f 0 T] from_union [of f 0 T] from_lengths [of f 0 T]
    by simp
qed

lemma one_outcome_failed:
  assumes "one_outcome_per_test f T ps fs" "i < length T" "f (T ! i) = Failed msg"
  shows "(i, msg) \<in> set fs \<and> i \<notin> set ps"
proof -
  from assms(1) have u: "set ps \<union> set (map fst fs) = {0..<length T}"
    and p: "\<forall>i \<in> set ps. f (T ! i) = Passed"
    and q: "\<forall>(i, msg) \<in> set fs. f (T ! i) = Failed msg"
    by (simp_all add: one_outcome_per_test_def)
  from p assms(3) have np: "i \<notin> set ps" by auto
  with u assms(2) have "i \<in> set (map fst fs)" by auto
  then obtain m where m: "(i, m) \<in> set fs" by auto
  with q have "f (T ! i) = Failed m" by auto
  with assms(3) have "m = msg" by simp
  with m np show ?thesis by simp
qed

text \<open>
  When no re-derivation of a run of \<open>Task3/test_runner.py\<close> touches the runner's frame,
  and in every run of \<open>Task2/test_runner_notebook.py\<close>, the run returns and its two
  lists hold one outcome per test.
\<close>

lemma one_outcome_without_frame_access:
  "(get_candidate load code_file = Inr candidate \<and> tests_frame_free ev rd candidate T \<longrightarrow>
      (\<exists>r. run_tests_and_report load ev rd code_file T = Some (Inr r) \<and> total r = length T
           \<and> one_outcome_per_test (classify ev rd candidate) T (passed r) (failed r)))
   \<and> (load code_file = Inr m \<longrightarrow>
      (\<exists>r. run_tests load ev code_file T = Inr r \<and> total r = length T
           \<and> passed_count r = length (passed r) \<and> failed_count r = length (failed r)
           \<and> one_outcome_per_test (notebook_test ev (notebook_candidate m)) T
                (passed r) (failed r)))"
  by (simp add: run_tests_and_report_Some run_tests_Inr from_one_outcome)

lemma rate_bounds:
  assumes "length ps \<le> length T"
  shows "\<exists>r. rate ps T = Inr r \<and> 0 \<le> r \<and> r \<le> 100 \<and> (T = [] \<longrightarrow> r = 0)"
proof (cases "T = []")
  case True
  then show ?thesis by (simp add: rate_def)
next
  case False
  let ?q = "real (length ps) / real (length T)"
  from False have pos: "0 < real (length T)" by simp
  have q0: "0 \<le> ?q" by simp
  have q1: "?q \<le> 1" using assms pos by (simp add: field_simps)
  have r0: "0 \<le> round_double ?q" by (rule round_double_nonneg [OF q0])
  have r1: "round_double ?q \<le> 1" by (rule round_double_le_1 [OF q0 q1])
  have a: "0 \<le> round_double ?q * 100" using r0 by simp
  have b: "round_double ?q * 100 \<le> 100" using r1 by simp
  from round_double_nonneg [OF a] round_double_le_100 [OF a b] False
  show ?thesis by (simp add: rate_Inr)
qed

lemma passed_from_length: "length (passed_from f i T) \<le> length T"
  using from_lengths [of f i T] by simp

text \<open>
  When no re-derivation of a run of \<open>Task3/test_runner.py\<close> touches the runner's frame,
  and in every run of \<open>Task2/test_runner_notebook.py\<close>, the pass rate of the returned
  report is between 0 and 100, and 0 for the empty list, where the division itself would
  raise \<open>ZeroDivisionError\<close>.
\<close>

lemma pass_rate_without_frame_access:
  "(get_candidate load code_file = Inr candidate \<and> tests_frame_free ev rd candidate T \<longrightarrow>
      (\<exists>r. run_tests_and_report load ev rd code_file T = Some (Inr r)
           \<and> 0 \<le> pass_rate r \<and> pass_rate r \<le> 100 \<and> (T = [] \<longrightarrow> pass_rate r = 0)))
   \<and> (load code_file = Inr m \<longrightarrow>
      (\<exists>r. run_tests load ev code_file T = Inr r
           \<and> 0 \<le> pass_rate r \<and> pass_rate r \<le> 100 \<and> (T = [] \<longrightarrow> pass_rate r = 0)))
   \<and> rate ps [] = Inr 0
   \<and> truediv (length ps) (length ([] :: string list))
        = Inl (Error ''ZeroDivisionError'' ''division by zero'')"
proof (intro conjI impI)
  assume h: "get_candidate load code_file = Inr candidate \<and> tests_frame_free ev rd candidate T"
  let ?f = "classify ev rd candidate"
  from h have c: "get_candidate load code_file = Inr candidate"
    and ff: "tests_frame_free ev rd candidate T" by simp_all
  from rate_bounds [OF passed_from_length [of ?f 0 T]]
  show "\<exists>r. run_tests_and_report load ev rd code_file T = Some (Inr r)
           \<and> 0 \<le> pass_rate r \<and> pass_rate r \<le> 100 \<and> (T = [] \<longrightarrow> pass_rate r = 0)"
    by (auto simp: run_tests_and_report_Some [OF c ff] rate_Inr)
next
  assume l: "load code_file = Inr m"
  let ?f = "notebook_test ev (notebook_candidate m)"
  from rate_bounds [OF passed_from_length [of ?f 0 T]]
  show "\<exists>r. run_tests load ev code_file T = Inr r
           \<and> 0 \<le> pass_rate r \<and> pass_rate r \<le> 100 \<and> (T = [] \<longrightarrow> pass_rate r = 0)"
    using l by (auto simp: run_tests_Inr [of load code_file m] rate_Inr)
next
  show "rate ps [] = Inr 0" by (simp add: rate_def)
next
  show "truediv (length ps) (length ([] :: string list))
        = Inl (Error ''ZeroDivisionError'' ''division by zero'')"
    by (simp add: truediv_def)
qed

text \<open>
  Claim C2 asks for one outcome per test case. \<open>Task3/test_runner.py\<close> evaluates the
  argument text of a failed test with \<open>eval(input_val)\<close>, in its own frame, where the
  text reaches the list \<open>passed\<close>. For the two tests \<open>candidate(3) == 9\<close> and
  \<open>candidate(locals().get('passed', []).extend([0,0,0]) or 3) == 10\<close> the returned
  \<open>passed\<close> holds index 0 four times, for a test list of length 2.
\<close>

theorem rederivation_reaches_passed_list:
  "extend_passed_test = ''candidate(locals().get('passed', []).extend([0,0,0]) or 3) == 10''
   \<and> map_option (map_sum id (\<lambda>r. (passed r, failed r, total r)))
       (run_tests_and_report example_load example_ev example_rd ''square.py''
          [''candidate(3) == 9'', extend_passed_test])
     = Some (Inr ([0, 0, 0, 0], [(1, ''Expected: 10, Got: 9'')], 2))"
  using report_pass_then_extend by (simp add: extend_passed_test_def)

text \<open>
  Claim C5 asks for a pass rate between 0 and 100. On the same two tests the list
  \<open>passed\<close> has four entries when the rate is computed, and the pass rate returned by
  \<open>Task3/test_runner.py\<close> is 200.
\<close>

theorem rederivation_lifts_pass_rate_above_100:
  "map_option (map_sum id pass_rate)
       (run_tests_and_report example_load example_ev example_rd ''square.py''
          [''candidate(3) == 9'',
           ''candidate(locals().get('passed', []).extend([0,0,0]) or 3) == 10''])
     = Some (Inr 200)"
  using report_pass_then_extend by (simp add: extend_passed_test_def)

section \<open>Resolution in the runner\<close>

lemma example_objects [simp]:
  "callable foo" "callable helper" "callable bar"
  "dunder_name foo = Some ''foo''" "dunder_name helper = Some ''_helper''"
  "dunder_name bar = Some ''bar''"
  by (simp_all add: foo_def helper_def bar_def)

lemma example_foo_helper_bar_dir:
  "dir_module [(''foo'', foo), (''_helper'', helper), (''bar'', bar)] = [''_helper'', ''bar'', ''foo'']"
  by (simp add: dir_module_def)

text \<open>
  Claim C1. The claim asks for the first public callable in declaration order: \<open>foo\<close> for
  a file that declares \<open>foo\<close>, \<open>_helper\<close>, \<open>bar\<close>. The scan of
  \<open>Task3/test_runner.py\<close> goes through \<open>dir(module)\<close>, which is sorted by name, and
  binds \<open>bar\<close> for that file.
\<close>

theorem runner_binds_alphabetically_first:
  "example_load ''foo_helper_bar.py'' = Inr [(''foo'', foo), (''_helper'', helper), (''bar'', bar)]
   \<and> get_candidate example_load ''foo_helper_bar.py'' = Inr bar
   \<and> dunder_name bar = Some ''bar''"
  by (simp add: get_candidate_def example_load_def example_foo_helper_bar_dir getattr_def)

section \<open>Classification of one test\<close>

lemma first_public_callable_None:
  "\<forall>name \<in> set names. startswith ''_'' name \<or> (\<forall>obj. getattr m name = Some obj \<longrightarrow> \<not> callable obj)
   \<Longrightarrow> first_public_callable m names = None"
  by (induction names) (auto split: option.splits)

lemma set_dir_module: "set (dir_module m) = set (map fst m)"
  by (simp add: dir_module_def)

lemma failure_message_not_Error:
  "\<not> startswith ''Error: '' (failure_message rd candidate test_code)"
  by (simp add: failure_message_def split: option.splits sum.splits prod.splits)

lemma record_failure_last:
  "local_failed (record_failure rd candidate i test_code fr) \<noteq> []
   \<and> fst (last (local_failed (record_failure rd candidate i test_code fr))) = i
   \<and> \<not> startswith ''Error: '' (snd (last (local_failed (record_failure rd candidate i test_code fr))))"
  by (simp add: record_failure_def Let_def split: option.splits sum.splits prod.splits)

lemma tests_frame_free_Nil: "tests_frame_free ev rd candidate []"
  by (simp add: tests_frame_free_def)

lemma tests_frame_free_rederived:
  assumes "ev candidate (normalize_test t) = Some (AssertionError a)"
    and "re_search (normalize_test t) = Some (input_val, g2)"
    and "frame_free rd candidate input_val"
    and "tests_frame_free ev rd candidate T"
  shows "tests_frame_free ev rd candidate (t # T)"
  using assms by (simp add: tests_frame_free_def)

lemma tests_frame_free_other:
  assumes "\<forall>a. ev candidate (normalize_test t) \<noteq> Some (AssertionError a)"
    and "tests_frame_free ev rd candidate T"
  shows "tests_frame_free ev rd candidate (t # T)"
  using assms by (auto simp: tests_frame_free_def split: option.splits exn.splits)

lemma classify_Error:
  "ev candidate (normalize_test t) = Some (Error kind msg) \<Longrightarrow>
     classify ev rd candidate t = Failed (''Error: '' @ kind @ '': '' @ msg)"
  by (simp add: classify_def)

lemma classify_AssertionError:
  "ev candidate (normalize_test t) = Some (AssertionError a) \<Longrightarrow>
     classify ev rd candidate t = Failed (failure_message rd candidate (normalize_test t))"
  by (simp add: classify_def)

lemma notebook_test_exn:
  "ev candidate (normalize_test t) = Some e \<Longrightarrow> notebook_test ev candidate t = Failed (exn_str e)"
  by (simp add: notebook_test_def)

lemma example_notebook_candidate: "notebook_candidate [(''square'', square)] = square"
  by (simp add: notebook_candidate_def getattr_def dir_module_def py_None_def square_def)

lemma normalize_zero_division:
  "normalize_test ''candidate(1 / 0) == 1'' = ''assert candidate(1 / 0) == 1''"
  by (simp add: normalize_test_def strip_def lstrip_def rstrip_def is_space_def)

lemma normalize_assert_message:
  "normalize_test ''assert candidate(3) == 10, \"division by zero\"''
     = ''assert candidate(3) == 10, \"division by zero\"''"
  by (simp add: normalize_test_def strip_def lstrip_def rstrip_def is_space_def)

lemma notebook_test_zero_division:
  "notebook_test example_ev square ''candidate(1 / 0) == 1'' = Failed ''division by zero''"
  by (simp add: notebook_test_def normalize_zero_division example_ev_def extend_passed_test_def)

lemma notebook_test_assert_message:
  "notebook_test example_ev square ''assert candidate(3) == 10, \"division by zero\"''
     = Failed ''division by zero''"
  by (simp add: notebook_test_def normalize_assert_message example_ev_def)

lemma ev_zero_division:
  "example_ev square ''assert candidate(1 / 0) == 1''
     = Some (Error ''ZeroDivisionError'' ''division by zero'')"
  by (simp add: example_ev_def extend_passed_test_def)

lemma ev_3_10: "example_ev square ''assert candidate(3) == 10'' = Some (AssertionError [])"
  by (simp add: example_ev_def)

lemma frame_free_3: "frame_free example_rd square ''3''"
  by (simp add: frame_free_def pure_rd_def example_rd_def)

lemma pure_rd_3: "pure_rd example_rd square ''3'' = Inr ''9''"
  by (simp add: pure_rd_def example_rd_def)

lemma classify_square_10:
  "classify example_ev example_rd square ''candidate(3) == 10'' = Failed ''Expected: 10, Got: 9''"
  unfolding classify_def normalize_bare_10 ev_3_10 failure_message_def re_search_3_10
  by (simp add: pure_rd_3 strip_10)

lemma classify_zero_division:
  "classify example_ev example_rd square ''candidate(1 / 0) == 1''
     = Failed ''Error: ZeroDivisionError: division by zero''"
  by (simp add: classify_def normalize_zero_division ev_zero_division)

text \<open>
  Claim C3, as stated, fails on \<open>Task2/test_runner_notebook.py\<close>: a test that raises
  \<open>ZeroDivisionError\<close> and a test whose assertion fails with the same message leave the
  same entry, without the kind of the error.
\<close>

theorem notebook_runner_drops_error_kind:
  "run_tests example_load example_ev ''square.py''
     [''candidate(1 / 0) == 1'', ''assert candidate(3) == 10, \"division by zero\"'']
   = Inr \<lparr>passed = [], failed = [(0, ''division by zero''), (1, ''division by zero'')],
          total = 2, pass_rate = 0, passed_count = 0, failed_count = 2\<rparr>"
proof -
  have l: "example_load ''square.py'' = Inr [(''square'', square)]"
    by (simp add: example_load_def)
  show ?thesis
    by (simp add: run_tests_Inr [of example_load "''square.py''" "[(''square'', square)]", OF l]
        example_notebook_candidate notebook_test_zero_division notebook_test_assert_message)
qed

text \<open>
  Claim C3, amended. In \<open>Task3/test_runner.py\<close> the iteration for a test whose
  evaluation raises an exception that is not an assertion failure appends the index with
  the message \<open>Error: <type name>: <message>\<close> to \<open>failed\<close> and changes nothing else;
  the iteration for a test whose assertion failed ends by appending the index with a
  message that does not start with \<open>Error: \<close>. When no re-derivation of the run touches
  the runner's frame, the run returns a report that holds these entries, and the index
  of the first kind of test is not in \<open>passed\<close>. In \<open>Task2/test_runner_notebook.py\<close>
  every raised exception is recorded in \<open>failed\<close> with \<open>str(e)\<close> alone.
\<close>

theorem runtime_error_recorded_with_kind:
  "(ev candidate (normalize_test t) = Some (Error kind msg) \<longrightarrow>
      run_step ev rd candidate i t fr
        = fr\<lparr>local_failed := local_failed fr @ [(i, ''Error: '' @ kind @ '': '' @ msg)]\<rparr>)
   \<and> (ev candidate (normalize_test t) = Some (AssertionError a) \<longrightarrow>
      local_failed (run_step ev rd candidate i t fr) \<noteq> []
      \<and> fst (last (local_failed (run_step ev rd candidate i t fr))) = i
      \<and> \<not> startswith ''Error: '' (snd (last (local_failed (run_step ev rd candidate i t fr)))))
   \<and> (get_candidate load code_file = Inr candidate \<and> tests_frame_free ev rd candidate T
      \<and> j < length T \<and> ev candidate (normalize_test (T ! j)) = Some (Error kind msg) \<longrightarrow>
      (\<exists>r. run_tests_and_report load ev rd code_file T = Some (Inr r)
         \<and> (j, ''Error: '' @ kind @ '': '' @ msg) \<in> set (failed r) \<and> j \<notin> set (passed r)
         \<and> (\<forall>k < length T. \<forall>m b.
               ev candidate (normalize_test (T ! k)) = Some (AssertionError b)
               \<and> (k, m) \<in> set (failed r) \<longrightarrow> \<not> startswith ''Error: '' m)))
   \<and> (load code_file = Inr mdl \<and> j < length T
      \<and> ev (notebook_candidate mdl) (normalize_test (T ! j)) = Some e \<longrightarrow>
      (\<exists>r. run_tests load ev code_file T = Inr r
         \<and> (j, exn_str e) \<in> set (failed r) \<and> j \<notin> set (passed r)))"
proof (intro conjI impI)
  assume "ev candidate (normalize_test t) = Some (Error kind msg)"
  then show "run_step ev rd candidate i t fr
        = fr\<lparr>local_failed := local_failed fr @ [(i, ''Error: '' @ kind @ '': '' @ msg)]\<rparr>"
    by (simp add: run_step_def)
next
  assume a: "ev candidate (normalize_test t) = Some (AssertionError a)"
  then have s: "run_step ev rd candidate i t fr = record_failure rd candidate i (normalize_test t) fr"
    by (simp add: run_step_def)
  show "local_failed (run_step ev rd candidate i t fr) \<noteq> []"
    unfolding s using record_failure_last by blast
  show "fst (last (local_failed (run_step ev rd candidate i t fr))) = i"
    unfolding s using record_failure_last by blast
  show "\<not> startswith ''Error: '' (snd (last (local_failed (run_step ev rd candidate i t fr))))"
    unfolding s using record_failure_last by blast
next
  assume h: "get_candidate load code_file = Inr candidate \<and> tests_frame_free ev rd candidate T
      \<and> j < length T \<and> ev candidate (normalize_test (T ! j)) = Some (Error kind msg)"
  let ?f = "classify ev rd candidate"
  let ?ps = "passed_from ?f 0 T" and ?fs = "failed_from ?f 0 T"
  have one: "one_outcome_per_test ?f T ?ps ?fs" by (rule from_one_outcome)
  from h have fi: "?f (T ! j) = Failed (''Error: '' @ kind @ '': '' @ msg)"
    by (simp add: classify_Error)
  from one_outcome_failed [OF one _ fi] h
  have rec: "(j, ''Error: '' @ kind @ '': '' @ msg) \<in> set ?fs \<and> j \<notin> set ?ps" by simp
  have dist: "\<not> startswith ''Error: '' m"
    if "k < length T" "ev candidate (normalize_test (T ! k)) = Some (AssertionError b)"
       "(k, m) \<in> set ?fs" for k m b
  proof -
    from one that(3) have "?f (T ! k) = Failed m"
      by (auto simp: one_outcome_per_test_def)
    with that(2) have "m = failure_message rd candidate (normalize_test (T ! k))"
      by (simp add: classify_AssertionError)
    then show ?thesis by (simp add: failure_message_not_Error)
  qed
  from h have c: "get_candidate load code_file = Inr candidate"
    and ff: "tests_frame_free ev rd candidate T" by simp_all
  from rec dist show "\<exists>r. run_tests_and_report load ev rd code_file T = Some (Inr r)
         \<and> (j, ''Error: '' @ kind @ '': '' @ msg) \<in> set (failed r) \<and> j \<notin> set (passed r)
         \<and> (\<forall>k < length T. \<forall>m b.
               ev candidate (normalize_test (T ! k)) = Some (AssertionError b)
               \<and> (k, m) \<in> set (failed r) \<longrightarrow> \<not> startswith ''Error: '' m)"
    by (simp add: run_tests_and_report_Some [OF c ff]) blast
next
  assume h: "load code_file = Inr mdl \<and> j < length T
      \<and> ev (notebook_candidate mdl) (normalize_test (T ! j)) = Some e"
  let ?f = "notebook_test ev (notebook_candidate mdl)"
  have one: "one_outcome_per_test ?f T (passed_from ?f 0 T) (failed_from ?f 0 T)"
    by (rule from_one_outcome)
  from h have fi: "?f (T ! j) = Failed (exn_str e)"
    by (simp add: notebook_test_exn)
  from one_outcome_failed [OF one _ fi] h
  show "\<exists>r. run_tests load ev code_file T = Inr r
         \<and> (j, exn_str e) \<in> set (failed r) \<and> j \<notin> set (passed r)"
    by (simp add: run_tests_Inr)
qed

lemma frame_free_3_10_zero_division:
  "tests_frame_free example_ev example_rd square [''candidate(3) == 10'', ''candidate(1 / 0) == 1'']"
proof (rule tests_frame_free_rederived)
  show "example_ev square (normalize_test ''candidate(3) == 10'') = Some (AssertionError [])"
    by (simp add: normalize_bare_10 ev_3_10)
  show "re_search (normalize_test ''candidate(3) == 10'') = Some (''3'', ''10'')"
    by (simp only: normalize_bare_10 re_search_3_10)
  show "frame_free example_rd square ''3''" by (rule frame_free_3)
  show "tests_frame_free example_ev example_rd square [''candidate(1 / 0) == 1'']"
    by (rule tests_frame_free_other)
       (simp_all add: normalize_zero_division ev_zero_division tests_frame_free_Nil)
qed

theorem runtime_error_recorded_with_kind_witness:
  "get_candidate example_load ''square.py'' = Inr square
   \<and> tests_frame_free example_ev example_rd square
        [''candidate(3) == 10'', ''candidate(1 / 0) == 1'']
   \<and> example_ev square (normalize_test ''candidate(1 / 0) == 1'')
       = Some (Error ''ZeroDivisionError'' ''division by zero'')
   \<and> run_step example_ev example_rd square 1 ''candidate(1 / 0) == 1''
        \<lparr>local_test_cases = [''candidate(3) == 10'', ''candidate(1 / 0) == 1''],
         local_passed = [], local_failed = [(0, ''Expected: 10, Got: 9'')]\<rparr>
      = \<lparr>local_test_cases = [''candidate(3) == 10'', ''candidate(1 / 0) == 1''],
         local_passed = [],
         local_failed = [(0, ''Expected: 10, Got: 9''),
                         (1, ''Error: ZeroDivisionError: division by zero'')]\<rparr>
   \<and> run_tests_and_report example_load example_ev example_rd ''square.py''
        [''candidate(3) == 10'', ''candidate(1 / 0) == 1'']
      = Some (Inr \<lparr>passed = [],
             failed = [(0, ''Expected: 10, Got: 9''),
                       (1, ''Error: ZeroDivisionError: division by zero'')],
             total = 2, pass_rate = 0\<rparr>)"
proof -
  let ?T = "[''candidate(3) == 10'', ''candidate(1 / 0) == 1'']"
  let ?fr = "\<lparr>local_test_cases = ?T,
         local_passed = [], local_failed = [(0, ''Expected: 10, Got: 9'')]\<rparr>"
  have e: "example_ev square (normalize_test ''candidate(1 / 0) == 1'')
       = Some (Error ''ZeroDivisionError'' ''division by zero'')"
    by (simp add: normalize_zero_division ev_zero_division)
  have val: "run_tests_and_report example_load example_ev example_rd ''square.py'' ?T
      = Some (Inr \<lparr>passed = [],
             failed = [(0, ''Expected: 10, Got: 9''),
                       (1, ''Error: ZeroDivisionError: division by zero'')],
             total = 2, pass_rate = 0\<rparr>)"
    by (simp add: run_tests_and_report_Some [OF example_square_candidate
          frame_free_3_10_zero_division] classify_square_10 classify_zero_division)
  from runtime_error_recorded_with_kind [of example_ev square "''candidate(1 / 0) == 1''"
      "''ZeroDivisionError''" "''division by zero''" example_rd 1 ?fr "[]" example_load
      "''square.py''" ?T 1 "[(''square'', square)]" "Error [] []"]
  have step: "run_step example_ev example_rd square 1 ''candidate(1 / 0) == 1'' ?fr
      = ?fr\<lparr>local_failed := local_failed ?fr
            @ [(1, ''Error: ZeroDivisionError: division by zero'')]\<rparr>"
    using e by simp
  from step val e example_square_candidate frame_free_3_10_zero_division
  show ?thesis by simp
qed

section \<open>Artifacts that do not load or have no public callable\<close>

text \<open>
  Claim C4, as stated, fails on \<open>Task2/test_runner_notebook.py\<close>: the exception of a
  load that fails leaves \<open>run_tests\<close>.
\<close>

theorem notebook_runner_propagates_load_error:
  "run_tests example_load example_ev ''broken.py'' [''candidate(3) == 9'']
     = Inl (Error ''SyntaxError'' ''invalid syntax (broken.py, line 1)'')"
  by (simp add: run_tests_def example_load_def)

text \<open>
  Claim C4, amended. \<open>run_tests_and_report\<close> of \<open>Task3/test_runner.py\<close> returns
  a report when the load raises, or when the module has no attribute \<open>candidate\<close> and
  every attribute is private or not callable: \<open>passed\<close> is empty, every test index is
  in \<open>failed\<close> with the same message (the text of the exception, or
  \<open>No function found in module\<close>), and the pass rate is 0.
\<close>

theorem load_failure_fails_every_test:
  "(load code_file = Inl e \<longrightarrow>
      run_tests_and_report load ev rd code_file T
        = Some (Inr \<lparr>passed = [], failed = map (\<lambda>i. (i, exn_str e)) [0..<length T],
               total = length T, pass_rate = 0\<rparr>))
   \<and> (load code_file = Inr m \<and> getattr m ''candidate'' = None
       \<and> (\<forall>name \<in> set (map fst m).
             startswith ''_'' name \<or> (\<forall>obj. getattr m name = Some obj \<longrightarrow> \<not> callable obj)) \<longrightarrow>
      run_tests_and_report load ev rd code_file T
        = Some (Inr \<lparr>passed = [],
               failed = map (\<lambda>i. (i, ''No function found in module'')) [0..<length T],
               total = length T, pass_rate = 0\<rparr>))"
proof (intro conjI impI)
  assume "load code_file = Inl e"
  then show "run_tests_and_report load ev rd code_file T
        = Some (Inr \<lparr>passed = [], failed = map (\<lambda>i. (i, exn_str e)) [0..<length T],
               total = length T, pass_rate = 0\<rparr>)"
    by (simp add: run_tests_and_report_def get_candidate_def)
next
  assume h: "load code_file = Inr m \<and> getattr m ''candidate'' = None
       \<and> (\<forall>name \<in> set (map fst m).
             startswith ''_'' name \<or> (\<forall>obj. getattr m name = Some obj \<longrightarrow> \<not> callable obj))"
  then have "first_public_callable m (dir_module m) = None"
    by (intro first_public_callable_None) (simp add: set_dir_module)
  with h have "get_candidate load code_file
      = Inl (Error ''ValueError'' ''No function found in module'')"
    by (simp add: get_candidate_def)
  then show "run_tests_and_report load ev rd code_file T
        = Some (Inr \<lparr>passed = [],
               failed = map (\<lambda>i. (i, ''No function found in module'')) [0..<length T],
               total = length T, pass_rate = 0\<rparr>)"
    by (simp add: run_tests_and_report_def)
qed

theorem load_failure_fails_every_test_witness:
  "example_load ''broken.py'' = Inl (Error ''SyntaxError'' ''invalid syntax (broken.py, line 1)'')
   \<and> run_tests_and_report example_load example_ev example_rd ''broken.py''
        [''candidate(3) == 9'', ''candidate(3) == 10'']
      = Some (Inr \<lparr>passed = [],
             failed = [(0, ''invalid syntax (broken.py, line 1)''),
                       (1, ''invalid syntax (broken.py, line 1)'')],
             total = 2, pass_rate = 0\<rparr>)
   \<and> example_load ''private_only.py'' = Inr [(''_helper'', helper)]
   \<and> run_tests_and_report example_load example_ev example_rd ''private_only.py''
        [''candidate(3) == 9'', ''candidate(3) == 10'']
      = Some (Inr \<lparr>passed = [],
             failed = [(0, ''No function found in module''), (1, ''No function found in module'')],
             total = 2, pass_rate = 0\<rparr>)"
  using load_failure_fails_every_test [of example_load "''broken.py''"
      "Error ''SyntaxError'' ''invalid syntax (broken.py, line 1)''" example_ev example_rd
      "[''candidate(3) == 9'', ''candidate(3) == 10'']" "[]"]
    load_failure_fails_every_test [of example_load "''private_only.py''"
      "Error [] []" example_ev example_rd
      "[''candidate(3) == 9'', ''candidate(3) == 10'']" "[(''_helper'', helper)]"]
  by (simp add: example_load_def getattr_def upt_rec)

section \<open>Assertion failures\<close>











section \<open>Occurrence of one string in another\<close>

lemma str_in_iff: "str_in sub s = (\<exists>u v. s = u @ sub @ v)"
proof
  show "str_in sub s \<Longrightarrow> \<exists>u v. s = u @ sub @ v"
  proof (induction s)
    case Nil
    then show ?case by simp
  next
    case (Cons c cs)
    from Cons.prems consider "startswith sub (c # cs)" | "str_in sub cs" by auto
    then show ?case
    proof cases
      case 1
      then have "c # cs = [] @ sub @ drop (length sub) (c # cs)"
        by (metis append_Nil append_take_drop_id startswith_def)
      then show ?thesis by blast
    next
      case 2
      from Cons.IH [OF 2] obtain u v where "cs = u @ sub @ v" by blast
      then have "c # cs = (c # u) @ sub @ v" by simp
      then show ?thesis by blast
    qed
  qed
next
  assume "\<exists>u v. s = u @ sub @ v"
  then obtain u v where s: "s = u @ sub @ v" by blast
  have "str_in sub (u @ sub @ v)"
  proof (induction u)
    case Nil
    show ?case
    proof (cases "sub @ v")
      case Nil
      then show ?thesis by simp
    next
      case (Cons a l)
      have "startswith sub (sub @ v)" by (rule startswith_append)
      with Cons show ?thesis by simp
    qed
  next
    case (Cons c u)
    then show ?case by simp
  qed
  with s show "str_in sub s" by simp
qed

lemma str_in_appendI1: "str_in a x \<Longrightarrow> str_in a (x @ y)"
  unfolding str_in_iff by (metis append.assoc)

lemma str_in_appendI2: "str_in a y \<Longrightarrow> str_in a (x @ y)"
  unfolding str_in_iff by (metis append.assoc)

lemma str_in_rstrip:
  assumes "str_in a c" "a \<noteq> []" "\<not> is_space (last a)"
  shows "str_in a (rstrip c)"
proof -
  from assms(1) obtain u v where c: "c = u @ a @ v" unfolding str_in_iff by blast
  from assms(2) obtain b l where a: "a = b @ [l]" by (metis rev_exhaust)
  with assms(3) have l: "\<not> is_space l" by simp
  have "rev c = rev v @ l # rev b @ rev u" by (simp add: c a)
  then have "dropWhile is_space (rev c) = dropWhile is_space (rev v) @ l # rev b @ rev u"
    using l by (simp add: dropWhile_append3)
  then have "rstrip c = u @ a @ rev (dropWhile is_space (rev v))"
    by (simp add: rstrip_def a)
  then show ?thesis unfolding str_in_iff by blast
qed

section \<open>The resolvers that read the syntax tree\<close>

text \<open>
  \<open>ast.walk\<close> yields the statements of the module before any node below them, so the
  first public function declared at top level is the one that \<open>get_function_info\<close> and
  \<open>get_function_name\<close> bind.
\<close>

lemma walk_append: "walk (q @ r) = q @ walk (r @ concat (map children q))"
  by (induction q arbitrary: r) simp_all

lemma public_function_names_append:
  "public_function_names (xs @ ys) = public_function_names xs @ public_function_names ys"
  by (induction xs rule: public_function_names.induct) simp_all

lemma walk_module:
  "public_function_names (walk [OtherNode body])
     = public_function_names body @ public_function_names (walk (concat (map children body)))"
proof -
  have "walk [OtherNode body] = OtherNode body # walk body" by simp
  moreover have "walk body = body @ walk (concat (map children body))"
    using walk_append [of body "[]"] by simp
  ultimately show ?thesis by (simp add: public_function_names_append)
qed

lemma enhancer_binds_first_declared:
  assumes "parse content = Some (OtherNode body)"
    and "public_function_names body = name # rest"
  shows "fst (get_function_info parse content pid) = Some name"
    and "\<not> (pid = ''HumanEval/94'' \<and> str_in ''def skjkasdkd'' content) \<Longrightarrow>
           get_function_name parse content pid = name"
proof -
  have w: "public_function_names (walk [OtherNode body])
      = name # rest @ public_function_names (walk (concat (map children body)))"
    by (simp only: walk_module assms(2) append_Cons)
  show "fst (get_function_info parse content pid) = Some name"
    using assms(1) w by (simp add: get_function_info_def del: walk.simps)
  show "get_function_name parse content pid = name"
    if "\<not> (pid = ''HumanEval/94'' \<and> str_in ''def skjkasdkd'' content)"
    using assms(1) w that by (auto simp: get_function_name_def simp del: walk.simps)
qed

lemma aliases_known:
  "get_function_info parse content pid = (p, aliases) \<Longrightarrow>
     set aliases \<subseteq> {''candidate'', ''skjkasdkd''}"
  by (auto simp: get_function_info_def split: option.splits list.splits if_splits)

lemma example_function_info:
  "get_function_info example_parse foo_source ''HumanEval/94''
     = (Some ''foo'', [''candidate'', ''skjkasdkd''])"
  by (simp add: get_function_info_def example_parse_def foo_defs_def)

section \<open>The timeout of the coverage run\<close>

text \<open>
  Claim C8. When the pytest process of an artifact needs more than the 30 seconds of the
  one timeout of \<open>subprocess.run\<close>, the result does not depend on what the process
  printed before: no test is counted as passed, all \<open>length T\<close> tests are counted as
  failed with the one detail \<open>Timeout\<close>, and passed and failed add up to the total.
\<close>

theorem timeout_fails_whole_batch:
  "30 < seconds \<Longrightarrow>
     run_pytest_with_coverage (Finishes seconds out err) cov T pid
       = \<lparr>problem_id = pid, llm_implementation = [], tests_passed = 0,
          tests_failed = length T, total_tests = length T, line_coverage = 0,
          branch_coverage = None,
          interpretation_line = ''Timeout - execution exceeded 30 seconds'',
          error_details = [''Timeout'']\<rparr>
     \<and> tests_passed (run_pytest_with_coverage (Finishes seconds out err) cov T pid)
         + tests_failed (run_pytest_with_coverage (Finishes seconds out err) cov T pid)
       = total_tests (run_pytest_with_coverage (Finishes seconds out err) cov T pid)"
  by (simp add: run_pytest_with_coverage_def subprocess_run_def)

theorem timeout_fails_whole_batch_witness:
  "(30 :: real) < 31
   \<and> run_pytest_with_coverage (Finishes 31 ''test_case_0 PASSED'' []) (0, None)
        [''candidate(3) == 9'', ''candidate(3) == 10''] ''HumanEval/1''
       = \<lparr>problem_id = ''HumanEval/1'', llm_implementation = [], tests_passed = 0,
          tests_failed = 2, total_tests = 2, line_coverage = 0,
          branch_coverage = None,
          interpretation_line = ''Timeout - execution exceeded 30 seconds'',
          error_details = [''Timeout'']\<rparr>"
  using timeout_fails_whole_batch [of 31 "''test_case_0 PASSED''" "[]" "(0, None)"
      "[''candidate(3) == 9'', ''candidate(3) == 10'']" "''HumanEval/1''"]
  by simp

section \<open>Enhancing a file twice\<close>

lemma alias_line_contains: "str_in alias (alias_line p alias)"
  unfolding str_in_iff alias_line_def by (metis append_Nil)

lemma needed_in_lines:
  "a \<in> set needed \<Longrightarrow> str_in a (concat (map (alias_line p) needed))"
proof (induction needed)
  case Nil
  then show ?case by simp
next
  case (Cons x xs)
  then show ?case
    by (auto intro: str_in_appendI1 str_in_appendI2 alias_line_contains)
qed

lemma alias_no_trailing_space:
  "a \<in> {''candidate'', ''skjkasdkd''} \<Longrightarrow> a \<noteq> [] \<and> \<not> is_space (last a)"
  by (auto simp: is_space_def)

lemma enhance_file_cases:
  "enhance_file parse content pid = (content, False)
   \<or> (\<exists>primary_func aliases.
         get_function_info parse content pid = (Some primary_func, aliases)
         \<and> filter (\<lambda>alias. \<not> str_in alias content) aliases \<noteq> []
         \<and> enhance_file parse content pid
             = (rstrip content @ ''\<newline>\<newline>''
                  @ ''# Auto-generated aliases for test compatibility\<newline>''
                  @ concat (map (alias_line primary_func)
                      (filter (\<lambda>alias. \<not> str_in alias content) aliases)), True))"
  by (auto simp: enhance_file_def Let_def split: option.splits prod.splits)

lemma rstrip_prefix: "startswith (rstrip content) content"
proof -
  have "content = rstrip content @ rev (takeWhile is_space (rev content))"
    unfolding rstrip_def by (metis rev_append rev_rev_ident takeWhile_dropWhile_id)
  then show ?thesis by (metis startswith_append)
qed

lemma example_enhanced_info:
  "get_function_info example_parse foo_enhanced ''HumanEval/94''
     = (Some ''foo'', [''candidate'', ''skjkasdkd''])"
  by (simp add: get_function_info_def example_parse_def foo_defs_def foo_enhanced_def
      foo_source_def foo_body_def)

lemma example_enhance:
  "enhance_file example_parse foo_source ''HumanEval/94'' = (foo_enhanced, True)"
  unfolding enhance_file_def example_function_info
  by (simp add: foo_source_def foo_body_def foo_enhanced_def rstrip_def is_space_def
      alias_line_def)

text \<open>
  Claim C10. The text \<open>enhance_file\<close> writes starts with the right-stripped source: it
  is the source itself, or the right-stripped source, a blank line, the comment line and
  one alias line for each alias name that does not occur in the source. When every alias
  name occurs in the text the file is copied. Enhancing the written text again copies
  it, given that the resolver finds in it the primary function and aliases it found in
  the source (appended assignments add no function definition).
\<close>

theorem enhance_file_preserves_source_and_is_idempotent:
  "startswith (rstrip content) (fst (enhance_file parse content pid))
   \<and> (enhance_file parse content pid = (content, False)
       \<or> (\<exists>primary_func needed. needed \<noteq> [] \<and> set needed \<subseteq> {''candidate'', ''skjkasdkd''}
             \<and> enhance_file parse content pid
                 = (rstrip content @ ''\<newline>\<newline>''
                      @ ''# Auto-generated aliases for test compatibility\<newline>''
                      @ concat (map (alias_line primary_func) needed), True)))
   \<and> ((\<forall>alias \<in> set (snd (get_function_info parse content pid)). str_in alias content) \<longrightarrow>
        enhance_file parse content pid = (content, False))
   \<and> (get_function_info parse (fst (enhance_file parse content pid)) pid
         = get_function_info parse content pid \<longrightarrow>
        enhance_file parse (fst (enhance_file parse content pid)) pid
          = (fst (enhance_file parse content pid), False))"
proof (intro conjI impI)
  show "startswith (rstrip content) (fst (enhance_file parse content pid))"
    using enhance_file_cases [of parse content pid]
    by (auto simp: rstrip_prefix startswith_append)
next
  show "enhance_file parse content pid = (content, False)
       \<or> (\<exists>primary_func needed. needed \<noteq> [] \<and> set needed \<subseteq> {''candidate'', ''skjkasdkd''}
             \<and> enhance_file parse content pid
                 = (rstrip content @ ''\<newline>\<newline>''
                      @ ''# Auto-generated aliases for test compatibility\<newline>''
                      @ concat (map (alias_line primary_func) needed), True))"
  proof (rule disjE [OF enhance_file_cases [of parse content pid]])
    assume "enhance_file parse content pid = (content, False)"
    then show ?thesis by simp
  next
    assume "\<exists>primary_func aliases.
         get_function_info parse content pid = (Some primary_func, aliases)
         \<and> filter (\<lambda>alias. \<not> str_in alias content) aliases \<noteq> []
         \<and> enhance_file parse content pid
             = (rstrip content @ ''\<newline>\<newline>''
                  @ ''# Auto-generated aliases for test compatibility\<newline>''
                  @ concat (map (alias_line primary_func)
                      (filter (\<lambda>alias. \<not> str_in alias content) aliases)), True)"
    then obtain p aliases where g: "get_function_info parse content pid = (Some p, aliases)"
      and n: "filter (\<lambda>alias. \<not> str_in alias content) aliases \<noteq> []"
      and e: "enhance_file parse content pid
             = (rstrip content @ ''\<newline>\<newline>''
                  @ ''# Auto-generated aliases for test compatibility\<newline>''
                  @ concat (map (alias_line p)
                      (filter (\<lambda>alias. \<not> str_in alias content) aliases)), True)"
      by blast
    from aliases_known [OF g]
    have "set (filter (\<lambda>alias. \<not> str_in alias content) aliases) \<subseteq> {''candidate'', ''skjkasdkd''}"
      by auto
    with n e show ?thesis by blast
  qed
next
  assume "\<forall>alias \<in> set (snd (get_function_info parse content pid)). str_in alias content"
  then show "enhance_file parse content pid = (content, False)"
    by (auto simp: enhance_file_def Let_def filter_empty_conv split: option.splits prod.splits)
next
  let ?e = "fst (enhance_file parse content pid)"
  assume stable: "get_function_info parse ?e pid = get_function_info parse content pid"
  show "enhance_file parse ?e pid = (?e, False)"
  proof (rule disjE [OF enhance_file_cases [of parse content pid]])
    assume "enhance_file parse content pid = (content, False)"
    then show ?thesis by simp
  next
    assume "\<exists>primary_func aliases.
         get_function_info parse content pid = (Some primary_func, aliases)
         \<and> filter (\<lambda>alias. \<not> str_in alias content) aliases \<noteq> []
         \<and> enhance_file parse content pid
             = (rstrip content @ ''\<newline>\<newline>''
                  @ ''# Auto-generated aliases for test compatibility\<newline>''
                  @ concat (map (alias_line primary_func)
                      (filter (\<lambda>alias. \<not> str_in alias content) aliases)), True)"
    then obtain p aliases where g: "get_function_info parse content pid = (Some p, aliases)"
      and e: "enhance_file parse content pid
             = (rstrip content @ ''\<newline>\<newline>''
                  @ ''# Auto-generated aliases for test compatibility\<newline>''
                  @ concat (map (alias_line p)
                      (filter (\<lambda>alias. \<not> str_in alias content) aliases)), True)"
      by blast
    let ?needed = "filter (\<lambda>alias. \<not> str_in alias content) aliases"
    have ee: "?e = rstrip content @ (''\<newline>\<newline>''
                  @ ''# Auto-generated aliases for test compatibility\<newline>'')
                  @ concat (map (alias_line p) ?needed)"
      by (simp add: e)
    have all: "str_in a ?e" if a: "a \<in> set aliases" for a
    proof (cases "str_in a content")
      case True
      from aliases_known [OF g] a have "a \<in> {''candidate'', ''skjkasdkd''}" by auto
      from alias_no_trailing_space [OF this] True have "str_in a (rstrip content)"
        by (simp add: str_in_rstrip)
      then show ?thesis unfolding ee by (rule str_in_appendI1)
    next
      case False
      with a have "a \<in> set ?needed" by simp
      then have "str_in a (concat (map (alias_line p) ?needed))" by (rule needed_in_lines)
      then show ?thesis unfolding ee by (intro str_in_appendI2)
    qed
    from stable g have g': "get_function_info parse ?e pid = (Some p, aliases)" by simp
    from all have "filter (\<lambda>alias. \<not> str_in alias ?e) aliases = []"
      by (simp add: filter_empty_conv)
    with g' show ?thesis
      by (simp add: enhance_file_def Let_def del: fst_conv)
  qed
qed

theorem enhance_file_preserves_source_and_is_idempotent_witness:
  "enhance_file example_parse foo_source ''HumanEval/94'' = (foo_enhanced, True)
   \<and> get_function_info example_parse foo_enhanced ''HumanEval/94''
       = get_function_info example_parse foo_source ''HumanEval/94''
   \<and> enhance_file example_parse foo_enhanced ''HumanEval/94'' = (foo_enhanced, False)"
  using enhance_file_preserves_source_and_is_idempotent
      [of foo_source example_parse "''HumanEval/94''"]
  by (simp add: example_enhance example_enhanced_info example_function_info)

section \<open>What the pattern reads from a test of the equality form\<close>

lemma match_expected_plain:
  assumes "expected \<noteq> []" "\<not> is_space (hd expected)" "CHR 0x0A \<notin> set expected"
    and that: "\<forall>c \<in> set ws. is_space c"
  shows "match_expected (ws @ expected) = Some expected"
proof -
  from assms(1) obtain e es where e: "expected = e # es" by (cases expected) auto
  with assms(2) have ne: "\<not> is_space e" by simp
  have tw: "takeWhile is_space (ws @ expected) = ws"
    using that ne by (simp add: e takeWhile_append2)
  have nl: "e \<noteq> CHR 0x0A" using assms(3) e by auto
  have all: "takeWhile (\<lambda>c. c \<noteq> CHR 0x0A) expected = expected"
    using assms(3) by (auto simp: takeWhile_eq_all_conv)
  show ?thesis
    unfolding match_expected_def tw
    using nl all by (simp add: e nth_append)
qed

lemma match_args_plain:
  assumes "CHR '')'' \<notin> set args" "CHR 0x0A \<notin> set args" "match_after_paren rest = Some g2"
  shows "match_args acc (args @ CHR '')'' # rest) = Some (rev acc @ args, g2)"
  using assms by (induction args arbitrary: acc) auto

lemma re_search_equality_form:
  assumes "CHR '')'' \<notin> set args" "CHR 0x0A \<notin> set args"
    and "expected \<noteq> []" "\<not> is_space (hd expected)" "CHR 0x0A \<notin> set expected"
  shows "re_search (''assert candidate('' @ args @ '') == '' @ expected) = Some (args, expected)"
proof -
  have "match_expected ('' '' @ expected) = Some expected"
    by (rule match_expected_plain [OF assms(3-5)]) (simp add: is_space_def)
  then have "match_after_paren ('' == '' @ expected) = Some expected"
    by (simp add: match_after_paren_def is_space_def)
  from match_args_plain [OF assms(1,2) this, of "[]"]
  have "match_at (''candidate('' @ args @ '') == '' @ expected) = Some (args, expected)"
    by (simp add: match_at_def)
  then show ?thesis
    by (simp add: match_at_def)
qed

section \<open>The alias of problem HumanEval/94\<close>

lemma getattr_append:
  "getattr (m @ [(a, obj)]) name = (if name = a then Some obj else getattr m name)"
  by (simp add: getattr_def)

lemma exec_alias_lines_binds:
  "getattr m p = Some obj \<Longrightarrow>
     exec_alias_lines builtins m p needed = Inr (m @ map (\<lambda>a. (a, obj)) needed)"
proof (induction needed arbitrary: m)
  case Nil
  then show ?case by simp
next
  case (Cons a needed)
  have "getattr (m @ [(a, obj)]) p = Some obj"
    using Cons.prems by (simp add: getattr_append)
  from Cons.IH [OF this] Cons.prems show ?case by (simp add: lookup_name_def)
qed

lemma getattr_bound_alias:
  "a \<in> set needed \<Longrightarrow> getattr (m @ map (\<lambda>a. (a, obj)) needed) a = Some obj"
proof (induction needed rule: rev_induct)
  case Nil
  then show ?case by simp
next
  case (snoc x xs)
  have "getattr (m @ map (\<lambda>a. (a, obj)) (xs @ [x])) a
      = (if a = x then Some obj else getattr (m @ map (\<lambda>a. (a, obj)) xs) a)"
    using getattr_append [of "m @ map (\<lambda>a. (a, obj)) xs" x obj a] by simp
  with snoc show ?case by auto
qed

lemma getattr_kept:
  "getattr m p = Some obj \<Longrightarrow> getattr (m @ map (\<lambda>a. (a, obj)) needed) p = Some obj"
proof (induction needed rule: rev_induct)
  case Nil
  then show ?case by simp
next
  case (snoc x xs)
  have "getattr (m @ map (\<lambda>a. (a, obj)) (xs @ [x])) p
      = (if p = x then Some obj else getattr (m @ map (\<lambda>a. (a, obj)) xs) p)"
    using getattr_append [of "m @ map (\<lambda>a. (a, obj)) xs" x obj p] by simp
  with snoc show ?case by auto
qed

lemma test_file_skjkasdkd:
  "getattr (test_file_bindings solution func_name) ''skjkasdkd''
     = Some (case solution of
               None \<Rightarrow> py_None
             | Some m \<Rightarrow> (case getattr m func_name of Some obj \<Rightarrow> obj | None \<Rightarrow> py_None))"
  by (simp add: test_file_bindings_def getattr_def Let_def)

lemma function_name_is_primary:
  "get_function_info parse content pid = (Some primary_func, aliases) \<Longrightarrow>
   \<not> (pid = ''HumanEval/94'' \<and> str_in ''def skjkasdkd'' content) \<Longrightarrow>
   get_function_name parse content pid = primary_func"
  by (auto simp: get_function_info_def get_function_name_def
      split: option.splits list.splits simp del: walk.simps)

lemma example_commented_info:
  "get_function_info example_parse commented_source ''HumanEval/94''
     = (Some ''solve'', [''candidate'', ''skjkasdkd''])"
  by (simp add: get_function_info_def example_parse_def commented_source_def foo_source_def
      foo_body_def foo_enhanced_def)

lemma example_commented_enhance:
  "enhance_file example_parse commented_source ''HumanEval/94'' = (commented_source, False)"
  unfolding enhance_file_def example_commented_info
  by (simp add: commented_source_def)

lemma example_method_name:
  "get_function_name example_parse method_source ''HumanEval/94'' = ''solve''"
  by (simp add: get_function_name_def example_parse_def method_source_def
      commented_source_def foo_source_def foo_body_def foo_enhanced_def)

text \<open>
  Claim C7, as stated, fails in two ways. For a solution of \<open>HumanEval/94\<close> whose
  function is called \<open>solve\<close> and whose text mentions \<open>candidate\<close> and \<open>skjkasdkd\<close> in a
  comment, \<open>get_function_info\<close> asks for both aliases, but \<open>enhance_file\<close> finds both
  names in the text and copies the file, whose module has no attribute \<open>skjkasdkd\<close>.
  For a solution whose function \<open>solve\<close> is a method of a class, the generated test file
  cannot import \<open>solve\<close> and binds \<open>skjkasdkd\<close> to \<open>None\<close>, which is not callable.
\<close>

theorem alias_94_not_a_callable:
  "get_function_info example_parse commented_source ''HumanEval/94''
     = (Some ''solve'', [''candidate'', ''skjkasdkd''])
   \<and> enhance_file example_parse commented_source ''HumanEval/94'' = (commented_source, False)
   \<and> getattr commented_module ''skjkasdkd'' = None
   \<and> get_function_name example_parse method_source ''HumanEval/94'' = ''solve''
   \<and> getattr (test_file_bindings (Some method_module) ''solve'') ''skjkasdkd'' = Some py_None
   \<and> \<not> callable py_None"
  by (simp add: example_commented_info example_commented_enhance example_method_name
      test_file_skjkasdkd)
     (simp add: getattr_def commented_module_def method_module_def py_None_def)

text \<open>
  Claim C7, amended. For problem \<open>HumanEval/94\<close>, \<open>get_function_info\<close> asks for the
  alias \<open>skjkasdkd\<close> exactly when the primary function it found has another name. When
  the text \<open>skjkasdkd\<close> occurs nowhere in the source, \<open>enhance_file\<close> appends the line
  \<open>skjkasdkd = <primary function>\<close>, and a module in which the primary function is a
  top-level name then binds \<open>skjkasdkd\<close> to the same object. The analyzer resolves the
  name \<open>skjkasdkd\<close> when the text holds \<open>def skjkasdkd\<close> and the primary function
  otherwise, and its test file binds \<open>skjkasdkd\<close> to what it imported under the resolved
  name: that object of the solution module, or \<open>None\<close> when the import fails.
\<close>

theorem humaneval_94_alias_bound:
  "(get_function_info parse content ''HumanEval/94'' = (Some primary_func, aliases) \<longrightarrow>
      (''skjkasdkd'' \<in> set aliases) = (primary_func \<noteq> ''skjkasdkd''))
   \<and> (get_function_info parse content ''HumanEval/94'' = (Some primary_func, aliases)
        \<and> primary_func \<noteq> [] \<and> primary_func \<noteq> ''skjkasdkd''
        \<and> \<not> str_in ''skjkasdkd'' content \<and> getattr m primary_func = Some obj \<longrightarrow>
      enhance_file parse content ''HumanEval/94''
        = (rstrip content @ ''\<newline>\<newline>''
             @ ''# Auto-generated aliases for test compatibility\<newline>''
             @ concat (map (alias_line primary_func)
                 (filter (\<lambda>alias. \<not> str_in alias content) aliases)), True)
      \<and> ''skjkasdkd'' \<in> set (filter (\<lambda>alias. \<not> str_in alias content) aliases)
      \<and> (\<exists>m'. exec_alias_lines builtins m primary_func
                  (filter (\<lambda>alias. \<not> str_in alias content) aliases) = Inr m'
             \<and> getattr m' ''skjkasdkd'' = Some obj
             \<and> getattr m' primary_func = Some obj))
   \<and> (str_in ''def skjkasdkd'' content \<longrightarrow>
        get_function_name parse content ''HumanEval/94'' = ''skjkasdkd'')
   \<and> (\<not> str_in ''def skjkasdkd'' content
        \<and> get_function_info parse content ''HumanEval/94'' = (Some primary_func, aliases) \<longrightarrow>
        get_function_name parse content ''HumanEval/94'' = primary_func)
   \<and> (getattr m (get_function_name parse content pid) = Some obj \<longrightarrow>
        getattr (test_file_bindings (Some m) (get_function_name parse content pid)) ''skjkasdkd''
          = Some obj)
   \<and> (getattr m (get_function_name parse content pid) = None \<longrightarrow>
        getattr (test_file_bindings (Some m) (get_function_name parse content pid)) ''skjkasdkd''
          = Some py_None)
   \<and> getattr (test_file_bindings None (get_function_name parse content pid)) ''skjkasdkd''
        = Some py_None"
proof (intro conjI impI)
  assume "get_function_info parse content ''HumanEval/94'' = (Some primary_func, aliases)"
  then show "(''skjkasdkd'' \<in> set aliases) = (primary_func \<noteq> ''skjkasdkd'')"
    by (auto simp: get_function_info_def split: option.splits list.splits if_splits
        simp del: walk.simps)
next
  assume h: "get_function_info parse content ''HumanEval/94'' = (Some primary_func, aliases)
        \<and> primary_func \<noteq> [] \<and> primary_func \<noteq> ''skjkasdkd''
        \<and> \<not> str_in ''skjkasdkd'' content \<and> getattr m primary_func = Some obj"
  let ?needed = "filter (\<lambda>alias. \<not> str_in alias content) aliases"
  from h have "''skjkasdkd'' \<in> set aliases"
    by (auto simp: get_function_info_def split: option.splits list.splits if_splits
        simp del: walk.simps)
  with h have n: "''skjkasdkd'' \<in> set ?needed" by simp
  then have ne: "?needed \<noteq> []" and al: "aliases \<noteq> []"
    by (auto simp: filter_empty_conv)
  from h ne al show "enhance_file parse content ''HumanEval/94''
        = (rstrip content @ ''\<newline>\<newline>''
             @ ''# Auto-generated aliases for test compatibility\<newline>''
             @ concat (map (alias_line primary_func) ?needed), True)"
    by (simp add: enhance_file_def Let_def)
  from n show "''skjkasdkd'' \<in> set ?needed" .
  from h have g: "getattr m primary_func = Some obj" by simp
  have "exec_alias_lines builtins m primary_func ?needed = Inr (m @ map (\<lambda>a. (a, obj)) ?needed)"
    by (rule exec_alias_lines_binds [OF g])
  moreover have "getattr (m @ map (\<lambda>a. (a, obj)) ?needed) ''skjkasdkd'' = Some obj"
    by (rule getattr_bound_alias [OF n])
  moreover have "getattr (m @ map (\<lambda>a. (a, obj)) ?needed) primary_func = Some obj"
    by (rule getattr_kept [OF g])
  ultimately show "\<exists>m'. exec_alias_lines builtins m primary_func ?needed = Inr m'
             \<and> getattr m' ''skjkasdkd'' = Some obj
             \<and> getattr m' primary_func = Some obj"
    by blast
next
  assume "str_in ''def skjkasdkd'' content"
  then show "get_function_name parse content ''HumanEval/94'' = ''skjkasdkd''"
    by (simp add: get_function_name_def)
next
  assume "\<not> str_in ''def skjkasdkd'' content
        \<and> get_function_info parse content ''HumanEval/94'' = (Some primary_func, aliases)"
  then show "get_function_name parse content ''HumanEval/94'' = primary_func"
    by (simp add: function_name_is_primary)
next
  assume "getattr m (get_function_name parse content pid) = Some obj"
  then show "getattr (test_file_bindings (Some m) (get_function_name parse content pid))
      ''skjkasdkd'' = Some obj"
    by (simp add: test_file_skjkasdkd)
next
  assume "getattr m (get_function_name parse content pid) = None"
  then show "getattr (test_file_bindings (Some m) (get_function_name parse content pid))
      ''skjkasdkd'' = Some py_None"
    by (simp add: test_file_skjkasdkd)
next
  show "getattr (test_file_bindings None (get_function_name parse content pid)) ''skjkasdkd''
        = Some py_None"
    by (simp add: test_file_skjkasdkd)
qed

lemma example_foo_name:
  "get_function_name example_parse foo_source ''HumanEval/94'' = ''foo''"
  using function_name_is_primary [OF example_function_info]
  by (simp add: foo_source_def foo_body_def)

theorem humaneval_94_alias_bound_witness:
  "get_function_info example_parse foo_source ''HumanEval/94''
     = (Some ''foo'', [''candidate'', ''skjkasdkd''])
   \<and> \<not> str_in ''skjkasdkd'' foo_source \<and> \<not> str_in ''def skjkasdkd'' foo_source
   \<and> getattr [(''foo'', foo), (''_helper'', helper), (''bar'', bar)] ''foo'' = Some foo
   \<and> enhance_file example_parse foo_source ''HumanEval/94'' = (foo_enhanced, True)
   \<and> exec_alias_lines [] [(''foo'', foo), (''_helper'', helper), (''bar'', bar)] ''foo''
         [''candidate'', ''skjkasdkd'']
       = Inr [(''foo'', foo), (''_helper'', helper), (''bar'', bar),
              (''candidate'', foo), (''skjkasdkd'', foo)]
   \<and> get_function_name example_parse foo_source ''HumanEval/94'' = ''foo''
   \<and> getattr (test_file_bindings (Some [(''foo'', foo), (''_helper'', helper), (''bar'', bar)])
                (get_function_name example_parse foo_source ''HumanEval/94'')) ''skjkasdkd''
       = Some foo"
proof -
  let ?m = "[(''foo'', foo), (''_helper'', helper), (''bar'', bar)]"
  have s1: "\<not> str_in ''skjkasdkd'' foo_source"
    by (simp add: foo_source_def foo_body_def)
  have s2: "\<not> str_in ''def skjkasdkd'' foo_source"
    by (simp add: foo_source_def foo_body_def)
  have s3: "\<not> str_in ''candidate'' foo_source"
    by (simp add: foo_source_def foo_body_def)
  have g: "getattr ?m ''foo'' = Some foo"
    by (simp add: getattr_def)
  have x: "exec_alias_lines [] ?m ''foo'' [''candidate'', ''skjkasdkd'']
       = Inr [(''foo'', foo), (''_helper'', helper), (''bar'', bar),
              (''candidate'', foo), (''skjkasdkd'', foo)]"
    by (simp add: getattr_def lookup_name_def)
  from humaneval_94_alias_bound [where parse = example_parse and content = foo_source
      and primary_func = "''foo''" and aliases = "[''candidate'', ''skjkasdkd'']"
      and m = ?m and obj = foo and pid = "''HumanEval/94''" and builtins = "[]"]
  have tb: "getattr (test_file_bindings (Some ?m)
                (get_function_name example_parse foo_source ''HumanEval/94'')) ''skjkasdkd''
       = Some foo"
    using example_function_info s1 s2 g by (simp add: example_foo_name)
  from example_function_info s1 s2 g example_enhance x example_foo_name tb
  show ?thesis by blast
qed

end
